theory Spec2Isabelle
  imports Complex_Main "HOL-Library.Multiset"
begin

section \<open>Conventions of the embedding\<close>

text \<open>
  The backtester is written in Python. Its numbers are Python floats; the embedding takes
  them as the reals they stand for, so every statement below is about exact arithmetic and
  says nothing about rounding in the last binary digit. A \<open>datetime.date\<close> is the number
  of its day (an \<open>int\<close>); the difference of two dates is the difference of the numbers.
  \<open>uuid4()\<close> is a supply of identifiers that never repeats: the ledger carries the next
  free identifier. An exception is a value of \<open>py_exception\<close>; an operation of the ledger
  returns its outcome (\<open>Inl\<close> the exception, \<open>Inr\<close> the returned value) together with
  the ledger as it is at that moment.
\<close>

type_synonym uuid = nat

datatype value_error =
    Shares_must_be_positive
  | Price_must_be_positive
  | RoundTrip_not_found
  | Cannot_exit_shares
  | holding_days_must_be_positive
  | stop_pct_must_be_positive
  | trailing_pct_must_be_positive
  | target_pct_must_be_positive
  | exit_portion_must_be_in_0_1
  | CompositeExitRule_requires_at_least_one_rule
  | price_must_be_positive
  | dollar_amount_must_be_positive
  | percent_must_be_between_0_and_1
  | default_max_positions_must_be_positive
  | shares_must_be_positive
  | base_dollar_amount_must_be_positive
  | target_volatility_must_be_positive
  | max_adjustment_must_be_at_least_1
  | Strategy_requires_at_least_one_entry_rule
  | Strategy_requires_non_empty_universe
  | Universe_cannot_be_empty
  | Entry_rules_cannot_be_empty
  | Exit_rule_required
  | Position_sizer_required
  | initial_capital_must_be_positive
  | start_date_must_be_before_end_date
  | max_positions_must_be_positive

datatype py_exception =
    ValueError value_error
  | ZeroDivisionError
  | AttributeError
  | KeyError

section \<open>TransactionCost\<close>

record TransactionCost =
  commission :: real
  slippage_pct :: real

definition calculate_entry_cost :: "TransactionCost \<Rightarrow> real \<Rightarrow> real \<Rightarrow> py_exception + real" where
  "calculate_entry_cost tc shares price =
     (if shares \<le> 0 then Inl (ValueError Shares_must_be_positive)
      else if price \<le> 0 then Inl (ValueError Price_must_be_positive)
      else let base_cost = shares * price;
               slippage_cost = base_cost * slippage_pct tc;
               tot = base_cost + slippage_cost + commission tc
           in Inr tot)"

definition calculate_exit_value :: "TransactionCost \<Rightarrow> real \<Rightarrow> real \<Rightarrow> py_exception + real" where
  "calculate_exit_value tc shares price =
     (if shares \<le> 0 then Inl (ValueError Shares_must_be_positive)
      else if price \<le> 0 then Inl (ValueError Price_must_be_positive)
      else let gross_proceeds = shares * price;
               slippage_cost = gross_proceeds * slippage_pct tc;
               net_proceeds = gross_proceeds - slippage_cost - commission tc
           in Inr net_proceeds)"

section \<open>Transaction\<close>

record Transaction =
  t_id :: uuid
  t_roundtrip_id :: uuid
  t_ticker :: string
  t_date :: int
  t_transaction_type :: string
  t_shares :: real
  t_price :: real
  t_net_amount :: real
  t_reason :: string

section \<open>Exit rules (the objects; their evaluation follows the round trip)\<close>

text \<open>
  A \<open>TrailingStopExit\<close> object owns a dictionary \<open>_peak_prices\<close> that its
  \<open>should_exit\<close> mutates. Rule objects are shared (one object serves every round trip of a
  strategy), so the dictionary lives in a store and the object carries its address.
\<close>

datatype exit_rule =
    TimeBasedExit int
  | StopLossExit real
  | TrailingStopExit real nat
  | ProfitTargetExit real real
  | CompositeExitRule "(exit_rule \<times> real) list"

datatype meta_value =
    MStr string
  | MNum real
  | MDict "(string \<times> meta_value) list"
  | MRule exit_rule

type_synonym metadata = "(string \<times> meta_value) list"

section \<open>RoundTrip\<close>

record RoundTrip =
  rt_id :: uuid
  rt_ticker :: string
  rt_transactions :: "Transaction list"
  rt_exit_rule :: "exit_rule option"
  rt_entry_signal_metadata :: metadata
  rt_total_cost :: real
  rt_total_proceeds :: real

definition add_transaction :: "RoundTrip \<Rightarrow> Transaction \<Rightarrow> RoundTrip" where
  "add_transaction rt txn =
     (let rt1 = rt\<lparr>rt_transactions := rt_transactions rt @ [txn]\<rparr>
      in if t_transaction_type txn \<in> set [''open'', ''add'']
         then rt1\<lparr>rt_total_cost := rt_total_cost rt1 + \<bar>t_net_amount txn\<bar>\<rparr>
         else rt1\<lparr>rt_total_proceeds := rt_total_proceeds rt1 + t_net_amount txn\<rparr>)"

definition entry_shares :: "Transaction list \<Rightarrow> real" where
  "entry_shares ts =
     sum_list (map t_shares (filter (\<lambda>t. t_transaction_type t \<in> set [''open'', ''add'']) ts))"

definition exit_shares :: "Transaction list \<Rightarrow> real" where
  "exit_shares ts =
     sum_list (map t_shares (filter (\<lambda>t. t_transaction_type t \<in> set [''reduce'', ''close'']) ts))"

definition total_shares :: "RoundTrip \<Rightarrow> real" where
  "total_shares rt = entry_shares (rt_transactions rt)"

definition remaining_shares :: "RoundTrip \<Rightarrow> real" where
  "remaining_shares rt =
     (let entries = entry_shares (rt_transactions rt);
          exits = exit_shares (rt_transactions rt)
      in entries - exits)"

definition is_open :: "RoundTrip \<Rightarrow> bool" where
  "is_open rt = (remaining_shares rt > 0)"

definition average_entry_price :: "RoundTrip \<Rightarrow> real" where
  "average_entry_price rt =
     (let ts = total_shares rt
      in if ts = 0 then 0 else rt_total_cost rt / ts)"

definition realized_pnl :: "RoundTrip \<Rightarrow> real" where
  "realized_pnl rt = rt_total_proceeds rt - rt_total_cost rt"

fun min_date :: "int \<Rightarrow> Transaction list \<Rightarrow> int" where
  "min_date m [] = m"
| "min_date m (t # ts) = min_date (min m (t_date t)) ts"

definition get_holding_days :: "RoundTrip \<Rightarrow> int \<Rightarrow> int" where
  "get_holding_days rt current_date =
     (case rt_transactions rt of
        [] \<Rightarrow> 0
      | t # ts \<Rightarrow> current_date - min_date (t_date t) ts)"

section \<open>Insertion-ordered dictionaries\<close>

text \<open>
  \<open>open_roundtrips\<close> is a Python \<open>dict\<close>, iterated in insertion order by the backtester:
  an association list. Assignment to a present key replaces the value in place, assignment
  to a new key appends, \<open>del\<close> removes the key.
\<close>

fun dict_get :: "('k \<times> 'v) list \<Rightarrow> 'k \<Rightarrow> 'v option" where
  "dict_get [] k = None"
| "dict_get ((k', v) # d) k = (if k' = k then Some v else dict_get d k)"

fun dict_set :: "('k \<times> 'v) list \<Rightarrow> 'k \<Rightarrow> 'v \<Rightarrow> ('k \<times> 'v) list" where
  "dict_set [] k v = [(k, v)]"
| "dict_set ((k', v') # d) k v = (if k' = k then (k, v) # d else (k', v') # dict_set d k v)"

definition dict_del :: "('k \<times> 'v) list \<Rightarrow> 'k \<Rightarrow> ('k \<times> 'v) list" where
  "dict_del d k = filter (\<lambda>kv. fst kv \<noteq> k) d"

definition dict_keys :: "('k \<times> 'v) list \<Rightarrow> 'k list" where
  "dict_keys d = map fst d"

definition dict_values :: "('k \<times> 'v) list \<Rightarrow> 'v list" where
  "dict_values d = map snd d"

section \<open>Portfolio\<close>

record Portfolio =
  starting_capital :: real
  cash :: real
  max_positions :: int
  transaction_cost :: TransactionCost
  fractional_shares :: bool
  open_roundtrips :: "(uuid \<times> RoundTrip) list"
  closed_roundtrips :: "RoundTrip list"
  transaction_log :: "Transaction list"
  equity_history :: "(int \<times> real) list"
  next_uuid :: uuid

definition Portfolio_init :: "real \<Rightarrow> int \<Rightarrow> TransactionCost \<Rightarrow> bool \<Rightarrow> Portfolio" where
  "Portfolio_init capital maxpos tc fractional =
     \<lparr>starting_capital = capital, cash = capital, max_positions = maxpos,
      transaction_cost = tc, fractional_shares = fractional,
      open_roundtrips = [], closed_roundtrips = [], transaction_log = [],
      equity_history = [], next_uuid = 0\<rparr>"

definition can_open_position :: "Portfolio \<Rightarrow> bool" where
  "can_open_position pf = (int (length (open_roundtrips pf)) < max_positions pf)"

text \<open>\<open>int(x)\<close> on a float drops the fraction, towards zero.\<close>

definition py_int :: "real \<Rightarrow> int" where
  "py_int x = (if 0 \<le> x then \<lfloor>x\<rfloor> else \<lceil>x\<rceil>)"

definition round_shares :: "Portfolio \<Rightarrow> real \<Rightarrow> real" where
  "round_shares pf shares = (if fractional_shares pf then shares else of_int (py_int shares))"

definition record_equity :: "Portfolio \<Rightarrow> int \<Rightarrow> real \<Rightarrow> Portfolio" where
  "record_equity pf date val = pf\<lparr>equity_history := equity_history pf @ [(date, val)]\<rparr>"

definition open_position ::
  "Portfolio \<Rightarrow> string \<Rightarrow> int \<Rightarrow> real \<Rightarrow> real \<Rightarrow> exit_rule option \<Rightarrow> metadata option
     \<Rightarrow> (py_exception + RoundTrip option) \<times> Portfolio" where
  "open_position pf ticker date price shares0 exit_rule signal_metadata =
     (let shares = round_shares pf shares0 in
      if shares \<le> 0 then (Inr None, pf)
      else if \<not> can_open_position pf then (Inr None, pf)
      else (case calculate_entry_cost (transaction_cost pf) shares price of
        Inl e \<Rightarrow> (Inl e, pf)
      | Inr entry_cost \<Rightarrow>
          if entry_cost > cash pf then (Inr None, pf)
          else
            let roundtrip_id = next_uuid pf;
                transaction = \<lparr>t_id = next_uuid pf + 1, t_roundtrip_id = roundtrip_id,
                               t_ticker = ticker, t_date = date,
                               t_transaction_type = ''open'', t_shares = shares,
                               t_price = price, t_net_amount = - entry_cost,
                               t_reason = ''signal''\<rparr>;
                roundtrip = add_transaction
                              \<lparr>rt_id = roundtrip_id, rt_ticker = ticker, rt_transactions = [],
                               rt_exit_rule = exit_rule,
                               rt_entry_signal_metadata =
                                 (case signal_metadata of None \<Rightarrow> [] | Some m \<Rightarrow> m),
                               rt_total_cost = 0, rt_total_proceeds = 0\<rparr>
                              transaction
            in (Inr (Some roundtrip),
                pf\<lparr>cash := cash pf - entry_cost,
                   open_roundtrips := dict_set (open_roundtrips pf) roundtrip_id roundtrip,
                   transaction_log := transaction_log pf @ [transaction],
                   next_uuid := next_uuid pf + 2\<rparr>)))"

definition add_to_position ::
  "Portfolio \<Rightarrow> uuid \<Rightarrow> int \<Rightarrow> real \<Rightarrow> real \<Rightarrow> string \<Rightarrow> (py_exception + bool) \<times> Portfolio" where
  "add_to_position pf roundtrip_id date price shares0 reason =
     (case dict_get (open_roundtrips pf) roundtrip_id of
        None \<Rightarrow> (Inl (ValueError RoundTrip_not_found), pf)
      | Some roundtrip \<Rightarrow>
          let shares = round_shares pf shares0 in
          if shares \<le> 0 then (Inr False, pf)
          else (case calculate_entry_cost (transaction_cost pf) shares price of
            Inl e \<Rightarrow> (Inl e, pf)
          | Inr add_cost \<Rightarrow>
              if add_cost > cash pf then (Inr False, pf)
              else
                let transaction = \<lparr>t_id = next_uuid pf, t_roundtrip_id = roundtrip_id,
                                   t_ticker = rt_ticker roundtrip, t_date = date,
                                   t_transaction_type = ''add'', t_shares = shares,
                                   t_price = price, t_net_amount = - add_cost,
                                   t_reason = reason\<rparr>
                in (Inr True,
                    pf\<lparr>cash := cash pf - add_cost,
                       open_roundtrips := dict_set (open_roundtrips pf) roundtrip_id
                                            (add_transaction roundtrip transaction),
                       transaction_log := transaction_log pf @ [transaction],
                       next_uuid := next_uuid pf + 1\<rparr>)))"

definition reduce_position ::
  "Portfolio \<Rightarrow> uuid \<Rightarrow> int \<Rightarrow> real \<Rightarrow> real \<Rightarrow> string \<Rightarrow> (py_exception + real) \<times> Portfolio" where
  "reduce_position pf roundtrip_id date price shares reason =
     (case dict_get (open_roundtrips pf) roundtrip_id of
        None \<Rightarrow> (Inl (ValueError RoundTrip_not_found), pf)
      | Some roundtrip \<Rightarrow>
          if shares > remaining_shares roundtrip then (Inl (ValueError Cannot_exit_shares), pf)
          else (case calculate_exit_value (transaction_cost pf) shares price of
            Inl e \<Rightarrow> (Inl e, pf)
          | Inr exit_value \<Rightarrow>
              let transaction = \<lparr>t_id = next_uuid pf, t_roundtrip_id = roundtrip_id,
                                 t_ticker = rt_ticker roundtrip, t_date = date,
                                 t_transaction_type = ''reduce'', t_shares = shares,
                                 t_price = price, t_net_amount = exit_value,
                                 t_reason = reason\<rparr>;
                  cost_of_shares_sold = average_entry_price roundtrip * shares;
                  realized = exit_value - cost_of_shares_sold;
                  roundtrip' = add_transaction roundtrip transaction;
                  pf1 = pf\<lparr>cash := cash pf + exit_value,
                           open_roundtrips := dict_set (open_roundtrips pf) roundtrip_id roundtrip',
                           transaction_log := transaction_log pf @ [transaction],
                           next_uuid := next_uuid pf + 1\<rparr>
              in if remaining_shares roundtrip' = 0
                 then (Inr realized,
                       pf1\<lparr>closed_roundtrips := closed_roundtrips pf1 @ [roundtrip'],
                           open_roundtrips := dict_del (open_roundtrips pf1) roundtrip_id\<rparr>)
                 else (Inr realized, pf1)))"

definition close_position ::
  "Portfolio \<Rightarrow> uuid \<Rightarrow> int \<Rightarrow> real \<Rightarrow> string \<Rightarrow> (py_exception + real) \<times> Portfolio" where
  "close_position pf roundtrip_id date price reason =
     (case dict_get (open_roundtrips pf) roundtrip_id of
        None \<Rightarrow> (Inl (ValueError RoundTrip_not_found), pf)
      | Some roundtrip \<Rightarrow>
          reduce_position pf roundtrip_id date price (remaining_shares roundtrip) reason)"

fun positions_value :: "(string \<rightharpoonup> real) \<Rightarrow> RoundTrip list \<Rightarrow> real \<Rightarrow> real" where
  "positions_value current_prices [] tot = tot"
| "positions_value current_prices (rt # rts) tot =
     positions_value current_prices rts
       (case current_prices (rt_ticker rt) of
          None \<Rightarrow> tot
        | Some price \<Rightarrow> tot + remaining_shares rt * price)"

definition get_total_value :: "Portfolio \<Rightarrow> int \<Rightarrow> (string \<rightharpoonup> real) \<Rightarrow> real" where
  "get_total_value pf date current_prices =
     positions_value current_prices (dict_values (open_roundtrips pf)) (cash pf)"

subsection \<open>Sequences of ledger operations\<close>

text \<open>
  A call of one of the four mutating operations, with its arguments. An operation is
  successful when it executed the trade: \<open>open_position\<close> returned a round trip,
  \<open>add_to_position\<close> returned \<open>True\<close>, \<open>reduce_position\<close> and \<open>close_position\<close>
  returned without raising.
\<close>

datatype ledger_op =
    OpenPosition string int real real "exit_rule option" "metadata option"
  | AddToPosition uuid int real real string
  | ReducePosition uuid int real real string
  | ClosePosition uuid int real string

fun apply_op :: "Portfolio \<Rightarrow> ledger_op \<Rightarrow> bool \<times> Portfolio" where
  "apply_op pf (OpenPosition ticker date price shares exit_rule md) =
     (case open_position pf ticker date price shares exit_rule md of
        (Inr (Some rt), pf') \<Rightarrow> (True, pf')
      | (Inr None, pf') \<Rightarrow> (False, pf')
      | (Inl e, pf') \<Rightarrow> (False, pf'))"
| "apply_op pf (AddToPosition k date price shares reason) =
     (case add_to_position pf k date price shares reason of
        (Inr b, pf') \<Rightarrow> (b, pf')
      | (Inl e, pf') \<Rightarrow> (False, pf'))"
| "apply_op pf (ReducePosition k date price shares reason) =
     (case reduce_position pf k date price shares reason of
        (Inr pnl, pf') \<Rightarrow> (True, pf')
      | (Inl e, pf') \<Rightarrow> (False, pf'))"
| "apply_op pf (ClosePosition k date price reason) =
     (case close_position pf k date price reason of
        (Inr pnl, pf') \<Rightarrow> (True, pf')
      | (Inl e, pf') \<Rightarrow> (False, pf'))"

text \<open>
  What \<open>TransactionCost\<close> returns to the operation: the entry cost that
  \<open>calculate_entry_cost\<close> returns for the rounded shares of an open or add, the exit value
  that \<open>calculate_exit_value\<close> returns for the shares of a reduce or close.
\<close>

fun entry_costs_of :: "Portfolio \<Rightarrow> ledger_op \<Rightarrow> real list" where
  "entry_costs_of pf (OpenPosition ticker date price shares exit_rule md) =
     (case calculate_entry_cost (transaction_cost pf) (round_shares pf shares) price of
        Inr c \<Rightarrow> [c] | Inl e \<Rightarrow> [])"
| "entry_costs_of pf (AddToPosition k date price shares reason) =
     (case calculate_entry_cost (transaction_cost pf) (round_shares pf shares) price of
        Inr c \<Rightarrow> [c] | Inl e \<Rightarrow> [])"
| "entry_costs_of pf (ReducePosition k date price shares reason) = []"
| "entry_costs_of pf (ClosePosition k date price reason) = []"

fun exit_values_of :: "Portfolio \<Rightarrow> ledger_op \<Rightarrow> real list" where
  "exit_values_of pf (OpenPosition ticker date price shares exit_rule md) = []"
| "exit_values_of pf (AddToPosition k date price shares reason) = []"
| "exit_values_of pf (ReducePosition k date price shares reason) =
     (case calculate_exit_value (transaction_cost pf) shares price of
        Inr v \<Rightarrow> [v] | Inl e \<Rightarrow> [])"
| "exit_values_of pf (ClosePosition k date price reason) =
     (case dict_get (open_roundtrips pf) k of
        None \<Rightarrow> []
      | Some rt \<Rightarrow>
          (case calculate_exit_value (transaction_cost pf) (remaining_shares rt) price of
             Inr v \<Rightarrow> [v] | Inl e \<Rightarrow> []))"

text \<open>
  A run of successful operations: the final ledger, the entry costs and the exit values
  in the order of the calls; \<open>None\<close> as soon as one operation is refused or raises.
\<close>

fun run_successful :: "Portfolio \<Rightarrow> ledger_op list \<Rightarrow> (Portfolio \<times> real list \<times> real list) option" where
  "run_successful pf [] = Some (pf, [], [])"
| "run_successful pf (x # xs) =
     (case apply_op pf x of
        (False, pf') \<Rightarrow> None
      | (True, pf') \<Rightarrow>
          (case run_successful pf' xs of
             None \<Rightarrow> None
           | Some (pf'', cs, vs) \<Rightarrow>
               Some (pf'', entry_costs_of pf x @ cs, exit_values_of pf x @ vs)))"

text \<open>Any calls at all, successful or not: the ledger they leave.\<close>

fun run_ops :: "Portfolio \<Rightarrow> ledger_op list \<Rightarrow> Portfolio" where
  "run_ops pf [] = pf"
| "run_ops pf (x # xs) = run_ops (snd (apply_op pf x)) xs"

text \<open>The ledgers a program can hold: a new one, and what any call makes of one.\<close>

inductive reachable :: "Portfolio \<Rightarrow> bool" where
  init: "reachable (Portfolio_init capital maxpos tc fractional)"
| step: "reachable pf \<Longrightarrow> reachable (snd (apply_op pf x))"
| equity: "reachable pf \<Longrightarrow> reachable (record_equity pf date val)"

text \<open>
  The bookkeeping invariant of the ledger. Keys of the open map are distinct and are
  the ids of their round trips; open round trips hold shares, closed ones hold none;
  the transactions of a round trip are those of the flat log that carry its id, in the
  order of the log; identifiers in use are below the next free one.
\<close>

definition ledger_inv :: "Portfolio \<Rightarrow> bool" where
  "ledger_inv pf \<longleftrightarrow>
     distinct (dict_keys (open_roundtrips pf)) \<and>
     (\<forall>(k, rt) \<in> set (open_roundtrips pf).
        rt_id rt = k \<and> k < next_uuid pf \<and> 0 < remaining_shares rt \<and>
        rt_transactions rt = filter (\<lambda>t. t_roundtrip_id t = k) (transaction_log pf)) \<and>
     (\<forall>rt \<in> set (closed_roundtrips pf).
        rt_id rt < next_uuid pf \<and> rt_id rt \<notin> set (dict_keys (open_roundtrips pf)) \<and>
        remaining_shares rt = 0 \<and>
        rt_transactions rt = filter (\<lambda>t. t_roundtrip_id t = rt_id rt) (transaction_log pf)) \<and>
     (\<forall>t \<in> set (transaction_log pf). t_roundtrip_id t < next_uuid pf)"

section \<open>Exit rules\<close>

definition TimeBasedExit_init :: "int \<Rightarrow> py_exception + exit_rule" where
  "TimeBasedExit_init holding_days =
     (if holding_days \<le> 0 then Inl (ValueError holding_days_must_be_positive)
      else Inr (TimeBasedExit holding_days))"

definition StopLossExit_init :: "real \<Rightarrow> py_exception + exit_rule" where
  "StopLossExit_init stop_pct =
     (if stop_pct \<le> 0 then Inl (ValueError stop_pct_must_be_positive)
      else Inr (StopLossExit stop_pct))"

type_synonym peak_store = "nat \<Rightarrow> (uuid \<rightharpoonup> real)"

text \<open>The new object is at address \<open>self\<close>, with an empty \<open>_peak_prices\<close>.\<close>

definition TrailingStopExit_init ::
  "real \<Rightarrow> nat \<Rightarrow> peak_store \<Rightarrow> (py_exception + exit_rule) \<times> peak_store" where
  "TrailingStopExit_init trailing_pct self st =
     (if trailing_pct \<le> 0 then (Inl (ValueError trailing_pct_must_be_positive), st)
      else (Inr (TrailingStopExit trailing_pct self), st(self := Map.empty)))"

definition ProfitTargetExit_init :: "real \<Rightarrow> real \<Rightarrow> py_exception + exit_rule" where
  "ProfitTargetExit_init target_pct exit_portion =
     (if target_pct \<le> 0 then Inl (ValueError target_pct_must_be_positive)
      else if \<not> (0 < exit_portion \<and> exit_portion \<le> 1)
        then Inl (ValueError exit_portion_must_be_in_0_1)
      else Inr (ProfitTargetExit target_pct exit_portion))"

definition CompositeExitRule_init :: "(exit_rule \<times> real) list \<Rightarrow> py_exception + exit_rule" where
  "CompositeExitRule_init rules =
     (if rules = [] then Inl (ValueError CompositeExitRule_requires_at_least_one_rule)
      else Inr (CompositeExitRule rules))"

text \<open>
  \<open>should_exit\<close> returns the triple (fires, exit portion, reason) and the store as the
  call leaves it. \<open>should_exit_rules\<close> is the \<open>for\<close> loop of the composite rule.
\<close>

fun should_exit ::
  "exit_rule \<Rightarrow> RoundTrip \<Rightarrow> int \<Rightarrow> real \<Rightarrow> peak_store \<Rightarrow> (bool \<times> real \<times> string) \<times> peak_store"
and should_exit_rules ::
  "(exit_rule \<times> real) list \<Rightarrow> RoundTrip \<Rightarrow> int \<Rightarrow> real \<Rightarrow> peak_store
     \<Rightarrow> (bool \<times> real \<times> string) \<times> peak_store"
where
  "should_exit (TimeBasedExit holding_days) roundtrip date price st =
     (if get_holding_days roundtrip date \<ge> holding_days
      then ((True, 1, ''time_exit''), st)
      else ((False, 0, ''''), st))"
| "should_exit (StopLossExit stop_pct) roundtrip date price st =
     (let avg_entry = average_entry_price roundtrip in
      if avg_entry \<le> 0 then ((False, 0, ''''), st)
      else let pnl_pct = (price - avg_entry) / avg_entry in
           if pnl_pct \<le> - stop_pct then ((True, 1, ''stop_loss''), st)
           else ((False, 0, ''''), st))"
| "should_exit (TrailingStopExit trailing_pct self) roundtrip date price st =
     (let peaks0 = st self;
          peaks1 = (if peaks0 (rt_id roundtrip) = None
                    then peaks0(rt_id roundtrip \<mapsto> average_entry_price roundtrip)
                    else peaks0);
          peaks2 = (if price > the (peaks1 (rt_id roundtrip))
                    then peaks1(rt_id roundtrip \<mapsto> price)
                    else peaks1);
          peak = the (peaks2 (rt_id roundtrip));
          st' = st(self := peaks2)
      in if peak \<le> 0 then ((False, 0, ''''), st')
         else let drawdown = (peak - price) / peak in
              if drawdown \<ge> trailing_pct then ((True, 1, ''trailing_stop''), st')
              else ((False, 0, ''''), st'))"
| "should_exit (ProfitTargetExit target_pct exit_portion) roundtrip date price st =
     (let avg_entry = average_entry_price roundtrip in
      if avg_entry \<le> 0 then ((False, 0, ''''), st)
      else let pnl_pct = (price - avg_entry) / avg_entry in
           if pnl_pct \<ge> target_pct then ((True, exit_portion, ''profit_target''), st)
           else ((False, 0, ''''), st))"
| "should_exit (CompositeExitRule rules) roundtrip date price st =
     should_exit_rules rules roundtrip date price st"
| "should_exit_rules [] roundtrip date price st = ((False, 0, ''''), st)"
| "should_exit_rules ((rule, portion) # rest) roundtrip date price st =
     (case should_exit rule roundtrip date price st of
        ((fires, own_portion, reason), st1) \<Rightarrow>
          if fires then ((True, portion, reason), st1)
          else should_exit_rules rest roundtrip date price st1)"

text \<open>
  The sub-rules of a list evaluated in order, each on the store the one before left:
  the store after the last one when none of them fires, \<open>None\<close> when one does.
\<close>

fun none_fires ::
  "(exit_rule \<times> real) list \<Rightarrow> RoundTrip \<Rightarrow> int \<Rightarrow> real \<Rightarrow> peak_store \<Rightarrow> peak_store option" where
  "none_fires [] roundtrip date price st = Some st"
| "none_fires ((rule, portion) # rest) roundtrip date price st =
     (case should_exit rule roundtrip date price st of
        ((fires, own_portion, reason), st1) \<Rightarrow>
          if fires then None else none_fires rest roundtrip date price st1)"

section \<open>Position sizers\<close>

datatype position_sizer =
    FixedDollarAmount real
  | PercentPortfolio real
  | PercentAvailableCash real
  | EqualWeight int
  | FixedShares real
  | RiskParity real real real

definition FixedDollarAmount_init :: "real \<Rightarrow> py_exception + position_sizer" where
  "FixedDollarAmount_init dollar_amount =
     (if dollar_amount \<le> 0 then Inl (ValueError dollar_amount_must_be_positive)
      else Inr (FixedDollarAmount dollar_amount))"

definition PercentPortfolio_init :: "real \<Rightarrow> py_exception + position_sizer" where
  "PercentPortfolio_init percent =
     (if \<not> (0 < percent \<and> percent \<le> 1) then Inl (ValueError percent_must_be_between_0_and_1)
      else Inr (PercentPortfolio percent))"

definition PercentAvailableCash_init :: "real \<Rightarrow> py_exception + position_sizer" where
  "PercentAvailableCash_init percent =
     (if \<not> (0 < percent \<and> percent \<le> 1) then Inl (ValueError percent_must_be_between_0_and_1)
      else Inr (PercentAvailableCash percent))"

definition EqualWeight_init :: "int \<Rightarrow> py_exception + position_sizer" where
  "EqualWeight_init default_max_positions =
     (if default_max_positions \<le> 0 then Inl (ValueError default_max_positions_must_be_positive)
      else Inr (EqualWeight default_max_positions))"

definition FixedShares_init :: "real \<Rightarrow> py_exception + position_sizer" where
  "FixedShares_init shares =
     (if shares \<le> 0 then Inl (ValueError shares_must_be_positive)
      else Inr (FixedShares shares))"

definition RiskParity_init :: "real \<Rightarrow> real \<Rightarrow> real \<Rightarrow> py_exception + position_sizer" where
  "RiskParity_init base_dollar_amount target_volatility max_adjustment =
     (if base_dollar_amount \<le> 0 then Inl (ValueError base_dollar_amount_must_be_positive)
      else if target_volatility \<le> 0 then Inl (ValueError target_volatility_must_be_positive)
      else if max_adjustment < 1 then Inl (ValueError max_adjustment_must_be_at_least_1)
      else Inr (RiskParity base_dollar_amount target_volatility max_adjustment))"

text \<open>A float divided by an \<open>int\<close>: Python raises on a zero divisor.\<close>

definition py_truediv :: "real \<Rightarrow> int \<Rightarrow> py_exception + real" where
  "py_truediv a b = (if b = 0 then Inl ZeroDivisionError else Inr (a / of_int b))"

fun calculate_shares ::
  "position_sizer \<Rightarrow> real \<Rightarrow> real \<Rightarrow> real \<Rightarrow> Portfolio option \<Rightarrow> string option
     \<Rightarrow> py_exception + real" where
  "calculate_shares (FixedDollarAmount dollar_amount) price available_cash portfolio_value pf ticker =
     (if price \<le> 0 then Inl (ValueError price_must_be_positive)
      else let target_amount = min dollar_amount available_cash in
           if target_amount \<le> 0 then Inr 0
           else Inr (target_amount / price))"
| "calculate_shares (PercentPortfolio percent) price available_cash portfolio_value pf ticker =
     (if price \<le> 0 then Inl (ValueError price_must_be_positive)
      else let target_amount = portfolio_value * percent;
               actual_amount = min target_amount available_cash in
           if actual_amount \<le> 0 then Inr 0
           else Inr (actual_amount / price))"
| "calculate_shares (PercentAvailableCash percent) price available_cash portfolio_value pf ticker =
     (if price \<le> 0 then Inl (ValueError price_must_be_positive)
      else let target_amount = available_cash * percent in
           if target_amount \<le> 0 then Inr 0
           else Inr (target_amount / price))"
| "calculate_shares (EqualWeight default_max_positions) price available_cash portfolio_value pf ticker =
     (if price \<le> 0 then Inl (ValueError price_must_be_positive)
      else let maxpos = (case pf of Some p \<Rightarrow> max_positions p | None \<Rightarrow> default_max_positions) in
           (case py_truediv available_cash maxpos of
              Inl e \<Rightarrow> Inl e
            | Inr allocation \<Rightarrow>
                if allocation \<le> 0 then Inr 0
                else Inr (allocation / price)))"
| "calculate_shares (FixedShares shares) price available_cash portfolio_value pf ticker =
     (if price \<le> 0 then Inl (ValueError price_must_be_positive)
      else let required_cash = shares * price in
           if required_cash > available_cash then Inr 0
           else Inr shares)"
| "calculate_shares (RiskParity base_dollar_amount target_volatility max_adjustment)
       price available_cash portfolio_value pf ticker =
     (if price \<le> 0 then Inl (ValueError price_must_be_positive)
      else let target_amount = base_dollar_amount;
               actual_amount = min target_amount available_cash in
           if actual_amount \<le> 0 then Inr 0
           else Inr (actual_amount / price))"

section \<open>Calculation, Condition and entry rules\<close>

text \<open>
  A \<open>Calculation\<close> reads the market-data provider, which is outside the simulation core.
  The provider is a parameter here: what \<open>calculate(ticker, date, data_provider, portfolio)\<close>
  returns for each calculation class, \<open>None\<close> when the data is not available.
\<close>

datatype calculation = EarningsSurprise | DayChange | PERatio | InstitutionalOwnership

type_synonym data_provider = "calculation \<Rightarrow> string \<Rightarrow> int \<Rightarrow> Portfolio option \<Rightarrow> real option"

fun class_name :: "calculation \<Rightarrow> string" where
  "class_name EarningsSurprise = ''EarningsSurprise''"
| "class_name DayChange = ''DayChange''"
| "class_name PERatio = ''PERatio''"
| "class_name InstitutionalOwnership = ''InstitutionalOwnership''"

datatype condition = GreaterThan real | LessThan real | Between real real

fun check :: "condition \<Rightarrow> real option \<Rightarrow> bool" where
  "check (GreaterThan threshold) val = (case val of None \<Rightarrow> False | Some v \<Rightarrow> v > threshold)"
| "check (LessThan threshold) val = (case val of None \<Rightarrow> False | Some v \<Rightarrow> v < threshold)"
| "check (Between min_val max_val) val =
     (case val of None \<Rightarrow> False | Some v \<Rightarrow> min_val \<le> v \<and> v \<le> max_val)"

fun condition_to_dict :: "condition \<Rightarrow> metadata" where
  "condition_to_dict (GreaterThan threshold) =
     [(''type'', MStr ''GreaterThan''), (''threshold'', MNum threshold)]"
| "condition_to_dict (LessThan threshold) =
     [(''type'', MStr ''LessThan''), (''threshold'', MNum threshold)]"
| "condition_to_dict (Between min_val max_val) =
     [(''type'', MStr ''Between''), (''min'', MNum min_val), (''max'', MNum max_val)]"

record Signal =
  s_ticker :: string
  s_date :: int
  s_signal_type :: string
  s_metadata :: metadata
  s_priority :: real

datatype entry_rule =
    EntryRule calculation condition string real
  | CompositeEntryRule "(calculation \<times> condition) list" string real

fun pairs_pass ::
  "(calculation \<times> condition) list \<Rightarrow> string \<Rightarrow> int \<Rightarrow> data_provider \<Rightarrow> Portfolio option
     \<Rightarrow> metadata \<Rightarrow> metadata option" where
  "pairs_pass [] ticker date dp pf md = Some md"
| "pairs_pass ((calc, cond) # rest) ticker date dp pf md =
     (case dp calc ticker date pf of
        None \<Rightarrow> None
      | Some v \<Rightarrow>
          if \<not> check cond (Some v) then None
          else pairs_pass rest ticker date dp pf (dict_set md (class_name calc) (MNum v)))"

fun should_enter ::
  "entry_rule \<Rightarrow> string \<Rightarrow> int \<Rightarrow> data_provider \<Rightarrow> Portfolio option \<Rightarrow> Signal option" where
  "should_enter (EntryRule calc cond signal_type priority) ticker date dp pf =
     (case dp calc ticker date pf of
        None \<Rightarrow> None
      | Some v \<Rightarrow>
          if check cond (Some v)
          then Some \<lparr>s_ticker = ticker, s_date = date, s_signal_type = signal_type,
                     s_metadata = [(''calculation'', MStr (class_name calc)),
                                   (''condition'', MDict (condition_to_dict cond)),
                                   (''value'', MNum v)],
                     s_priority = priority\<rparr>
          else None)"
| "should_enter (CompositeEntryRule pairs signal_type priority) ticker date dp pf =
     (case pairs_pass pairs ticker date dp pf [] of
        None \<Rightarrow> None
      | Some md \<Rightarrow>
          Some \<lparr>s_ticker = ticker, s_date = date, s_signal_type = signal_type,
                s_metadata = md, s_priority = priority\<rparr>)"

section \<open>Strategy\<close>

record Strategy =
  strategy_name :: string
  entry_rules :: "entry_rule list"
  exit_rules :: "exit_rule option"
  position_sizer :: "position_sizer option"
  universe :: "string list"
  description :: string

definition Strategy_init ::
  "string \<Rightarrow> entry_rule list \<Rightarrow> exit_rule option \<Rightarrow> position_sizer option \<Rightarrow> string list \<Rightarrow> string
     \<Rightarrow> py_exception + Strategy" where
  "Strategy_init nm ers xr ps tickers descr =
     (if ers = [] then Inl (ValueError Strategy_requires_at_least_one_entry_rule)
      else if tickers = [] then Inl (ValueError Strategy_requires_non_empty_universe)
      else Inr \<lparr>strategy_name = nm, entry_rules = ers, exit_rules = xr,
                position_sizer = ps, universe = tickers, description = descr\<rparr>)"

definition validate :: "Strategy \<Rightarrow> py_exception + bool" where
  "validate s =
     (if universe s = [] then Inl (ValueError Universe_cannot_be_empty)
      else if entry_rules s = [] then Inl (ValueError Entry_rules_cannot_be_empty)
      else if exit_rules s = None then Inl (ValueError Exit_rule_required)
      else if position_sizer s = None then Inl (ValueError Position_sizer_required)
      else Inr True)"

text \<open>The inner loop of \<open>generate_signals\<close>: every entry rule, for one ticker.\<close>

fun signals_of_rules ::
  "entry_rule list \<Rightarrow> string \<Rightarrow> int \<Rightarrow> data_provider \<Rightarrow> Portfolio option \<Rightarrow> Signal list
     \<Rightarrow> Signal list" where
  "signals_of_rules [] ticker date dp pf signals = signals"
| "signals_of_rules (rule # rest) ticker date dp pf signals =
     signals_of_rules rest ticker date dp pf
       (case should_enter rule ticker date dp pf of
          None \<Rightarrow> signals
        | Some signal \<Rightarrow> signals @ [signal])"

text \<open>The outer loop: every ticker of the universe.\<close>

fun signals_of_universe ::
  "string list \<Rightarrow> entry_rule list \<Rightarrow> int \<Rightarrow> data_provider \<Rightarrow> Portfolio option \<Rightarrow> Signal list
     \<Rightarrow> Signal list" where
  "signals_of_universe [] rules date dp pf signals = signals"
| "signals_of_universe (ticker # rest) rules date dp pf signals =
     signals_of_universe rest rules date dp pf
       (signals_of_rules rules ticker date dp pf signals)"

text \<open>
  \<open>list.sort(key=..., reverse=True)\<close>: the list is reversed, sorted by ascending key
  with a stable sort, and reversed again.
\<close>

definition py_sort_reverse :: "('a \<Rightarrow> real) \<Rightarrow> 'a list \<Rightarrow> 'a list" where
  "py_sort_reverse key xs = rev (sort_key key (rev xs))"

definition generate_signals ::
  "Strategy \<Rightarrow> int \<Rightarrow> data_provider \<Rightarrow> Portfolio option \<Rightarrow> Signal list" where
  "generate_signals s current_date dp pf =
     py_sort_reverse s_priority
       (signals_of_universe (universe s) (entry_rules s) current_date dp pf [])"

section \<open>Backtester\<close>

text \<open>
  \<open>price_data\<close> is the table of closing prices: a row for each trading day, a price in
  the row for each ticker that has one that day (a missing column and a NaN are both
  absent). \<open>rule_state\<close> holds the dictionaries of the exit-rule objects.
\<close>

record Backtester =
  strategy :: Strategy
  data_source :: data_provider
  initial_capital :: real
  start_date :: int
  end_date :: int
  portfolio :: Portfolio
  price_data :: "int \<rightharpoonup> (string \<rightharpoonup> real)"
  rule_state :: peak_store

definition Backtester_init ::
  "Strategy \<Rightarrow> data_provider \<Rightarrow> real \<Rightarrow> int \<Rightarrow> int \<Rightarrow> real \<Rightarrow> real \<Rightarrow> int \<Rightarrow> bool
     \<Rightarrow> (int \<rightharpoonup> (string \<rightharpoonup> real)) \<Rightarrow> peak_store \<Rightarrow> py_exception + Backtester" where
  "Backtester_init s dp capital first_day last_day comm slip maxpos fractional prices st =
     (if capital \<le> 0 then Inl (ValueError initial_capital_must_be_positive)
      else if first_day \<ge> last_day then Inl (ValueError start_date_must_be_before_end_date)
      else if maxpos \<le> 0 then Inl (ValueError max_positions_must_be_positive)
      else (case validate s of
              Inl e \<Rightarrow> Inl e
            | Inr ok \<Rightarrow>
                Inr \<lparr>strategy = s, data_source = dp, initial_capital = capital,
                     start_date = first_day, end_date = last_day,
                     portfolio = Portfolio_init capital maxpos
                                   \<lparr>commission = comm, slippage_pct = slip\<rparr> fractional,
                     price_data = prices, rule_state = st\<rparr>))"

fun universe_prices ::
  "(string \<rightharpoonup> real) \<Rightarrow> string list \<Rightarrow> (string \<rightharpoonup> real) \<Rightarrow> (string \<rightharpoonup> real)" where
  "universe_prices day_prices [] current_prices = current_prices"
| "universe_prices day_prices (ticker # rest) current_prices =
     universe_prices day_prices rest
       (case day_prices ticker of
          None \<Rightarrow> current_prices
        | Some price \<Rightarrow> if price > 0 then current_prices(ticker \<mapsto> price) else current_prices)"

fun held_prices ::
  "(string \<rightharpoonup> real) \<Rightarrow> (uuid \<times> RoundTrip) list \<Rightarrow> (string \<rightharpoonup> real) \<Rightarrow> (string \<rightharpoonup> real)" where
  "held_prices day_prices [] current_prices = current_prices"
| "held_prices day_prices ((k, roundtrip) # rest) current_prices =
     held_prices day_prices rest
       (if current_prices (rt_ticker roundtrip) = None
        then (case day_prices (rt_ticker roundtrip) of
                None \<Rightarrow> current_prices
              | Some price \<Rightarrow>
                  if price > 0 then current_prices(rt_ticker roundtrip \<mapsto> price)
                  else current_prices)
        else current_prices)"

definition get_current_prices :: "Backtester \<Rightarrow> int \<Rightarrow> (string \<rightharpoonup> real)" where
  "get_current_prices bt current_date =
     (case price_data bt current_date of
        None \<Rightarrow> Map.empty
      | Some day_prices \<Rightarrow>
          held_prices day_prices (open_roundtrips (portfolio bt))
            (universe_prices day_prices (universe (strategy bt)) Map.empty))"

definition calculate_portfolio_value :: "Backtester \<Rightarrow> int \<Rightarrow> (string \<rightharpoonup> real) \<Rightarrow> real" where
  "calculate_portfolio_value bt current_date current_prices =
     positions_value current_prices (dict_values (open_roundtrips (portfolio bt)))
       (cash (portfolio bt))"

text \<open>
  The first loop of \<open>_process_exits\<close>: every open round trip that has a price asks its
  exit rule; the ones that fire are collected. A round trip whose \<open>exit_rule\<close> is not a
  rule object raises on the call.
\<close>

fun collect_exits ::
  "(uuid \<times> RoundTrip) list \<Rightarrow> int \<Rightarrow> (string \<rightharpoonup> real) \<Rightarrow> peak_store
     \<Rightarrow> (uuid \<times> real \<times> real \<times> string) list
     \<Rightarrow> py_exception + ((uuid \<times> real \<times> real \<times> string) list \<times> peak_store)" where
  "collect_exits [] current_date current_prices st positions_to_exit =
     Inr (positions_to_exit, st)"
| "collect_exits ((k, roundtrip) # rest) current_date current_prices st positions_to_exit =
     (case current_prices (rt_ticker roundtrip) of
        None \<Rightarrow> collect_exits rest current_date current_prices st positions_to_exit
      | Some current_price \<Rightarrow>
          (case rt_exit_rule roundtrip of
             None \<Rightarrow> Inl AttributeError
           | Some rule \<Rightarrow>
               (case should_exit rule roundtrip current_date current_price st of
                  ((fires, exit_portion, reason), st') \<Rightarrow>
                    collect_exits rest current_date current_prices st'
                      (if fires
                       then positions_to_exit @ [(k, exit_portion, current_price, reason)]
                       else positions_to_exit))))"

text \<open>The second loop: the collected exits are executed on the ledger, in order.\<close>

fun execute_exits ::
  "Portfolio \<Rightarrow> int \<Rightarrow> (uuid \<times> real \<times> real \<times> string) list \<Rightarrow> py_exception + Portfolio" where
  "execute_exits pf current_date [] = Inr pf"
| "execute_exits pf current_date ((k, portion, price, reason) # rest) =
     (case dict_get (open_roundtrips pf) k of
        None \<Rightarrow> Inl KeyError
      | Some roundtrip \<Rightarrow>
          let shares_to_exit = remaining_shares roundtrip * portion in
          if portion \<ge> 0.9999
          then (case close_position pf k current_date price reason of
                  (Inl e, pf') \<Rightarrow> Inl e
                | (Inr pnl, pf') \<Rightarrow> execute_exits pf' current_date rest)
          else (case reduce_position pf k current_date price shares_to_exit reason of
                  (Inl e, pf') \<Rightarrow> Inl e
                | (Inr pnl, pf') \<Rightarrow> execute_exits pf' current_date rest))"

definition process_exits ::
  "Backtester \<Rightarrow> int \<Rightarrow> (string \<rightharpoonup> real) \<Rightarrow> py_exception + Backtester" where
  "process_exits bt current_date current_prices =
     (case collect_exits (open_roundtrips (portfolio bt)) current_date current_prices
             (rule_state bt) [] of
        Inl e \<Rightarrow> Inl e
      | Inr (positions_to_exit, st') \<Rightarrow>
          (case execute_exits (portfolio bt) current_date positions_to_exit of
             Inl e \<Rightarrow> Inl e
           | Inr pf' \<Rightarrow> Inr (bt\<lparr>portfolio := pf', rule_state := st'\<rparr>)))"

text \<open>
  \<open>signal.metadata.get('exit_rule', self.strategy.exit_rules)\<close>: the value under the key
  when there is one, the strategy's rule otherwise. A value that is not a rule object
  behaves as a missing rule does when the backtester calls it.
\<close>

definition signal_exit_rule :: "Strategy \<Rightarrow> Signal \<Rightarrow> exit_rule option" where
  "signal_exit_rule s signal =
     (case dict_get (s_metadata signal) ''exit_rule'' of
        None \<Rightarrow> exit_rules s
      | Some (MRule r) \<Rightarrow> Some r
      | Some other \<Rightarrow> None)"

text \<open>The loop of \<open>_process_entries\<close> over the signals that have a price.\<close>

fun enter_signals ::
  "Backtester \<Rightarrow> int \<Rightarrow> (string \<rightharpoonup> real) \<Rightarrow> Signal list \<Rightarrow> py_exception + Backtester" where
  "enter_signals bt current_date current_prices [] = Inr bt"
| "enter_signals bt current_date current_prices (signal # rest) =
     (if \<not> can_open_position (portfolio bt) then Inr bt
      else
        (case current_prices (s_ticker signal) of
           None \<Rightarrow> Inl KeyError
         | Some current_price \<Rightarrow>
             let portfolio_value = calculate_portfolio_value bt current_date current_prices in
             (case position_sizer (strategy bt) of
                None \<Rightarrow> Inl AttributeError
              | Some sizer \<Rightarrow>
                  (case calculate_shares sizer current_price (cash (portfolio bt))
                          portfolio_value (Some (portfolio bt)) (Some (s_ticker signal)) of
                     Inl e \<Rightarrow> Inl e
                   | Inr shares \<Rightarrow>
                       if shares \<le> 0 then enter_signals bt current_date current_prices rest
                       else
                         (case open_position (portfolio bt) (s_ticker signal) current_date
                                 current_price shares (signal_exit_rule (strategy bt) signal)
                                 (Some (s_metadata signal)) of
                            (Inl e, pf') \<Rightarrow> Inl e
                          | (Inr r, pf') \<Rightarrow>
                              enter_signals (bt\<lparr>portfolio := pf'\<rparr>) current_date
                                current_prices rest)))))"

definition process_entries ::
  "Backtester \<Rightarrow> int \<Rightarrow> (string \<rightharpoonup> real) \<Rightarrow> Signal list \<Rightarrow> py_exception + Backtester" where
  "process_entries bt current_date current_prices signals =
     (let valid_signals = filter (\<lambda>s. current_prices (s_ticker s) \<noteq> None) signals
      in enter_signals bt current_date current_prices valid_signals)"

definition process_day :: "Backtester \<Rightarrow> int \<Rightarrow> py_exception + Backtester" where
  "process_day bt current_date =
     (let current_prices = get_current_prices bt current_date in
      case process_exits bt current_date current_prices of
        Inl e \<Rightarrow> Inl e
      | Inr bt1 \<Rightarrow>
          let signals = generate_signals (strategy bt1) current_date (data_source bt1)
                          (Some (portfolio bt1))
          in (case process_entries bt1 current_date current_prices signals of
                Inl e \<Rightarrow> Inl e
              | Inr bt2 \<Rightarrow>
                  let portfolio_value =
                        calculate_portfolio_value bt2 current_date current_prices
                  in Inr (bt2\<lparr>portfolio :=
                                record_equity (portfolio bt2) current_date portfolio_value\<rparr>)))"

section \<open>Example ledgers\<close>

text \<open>
  A ledger of 10,000 with no transaction costs and fractional shares; the same ledger
  after 10 shares were opened at 100; and the calls open 10 at 100, add 5 at 90, close at 110.
\<close>

definition ledger0 :: Portfolio where
  "ledger0 = Portfolio_init 10000 5 \<lparr>commission = 0, slippage_pct = 0\<rparr> True"

definition scenario_ops :: "ledger_op list" where
  "scenario_ops =
     [OpenPosition ''AAPL'' 1 100 10 None None,
      AddToPosition 0 2 90 5 ''add'',
      ClosePosition 0 3 110 ''exit'']"

definition position1 :: RoundTrip where
  "position1 =
     \<lparr>rt_id = 0, rt_ticker = ''AAPL'',
      rt_transactions =
        [\<lparr>t_id = 1, t_roundtrip_id = 0, t_ticker = ''AAPL'', t_date = 1,
          t_transaction_type = ''open'', t_shares = 10, t_price = 100,
          t_net_amount = - 1000, t_reason = ''signal''\<rparr>],
      rt_exit_rule = None, rt_entry_signal_metadata = [],
      rt_total_cost = 1000, rt_total_proceeds = 0\<rparr>"

definition ledger1 :: Portfolio where
  "ledger1 = run_ops ledger0 [OpenPosition ''AAPL'' 1 100 10 None None]"

text \<open>The ledger after the 10 shares were sold again at 110.\<close>

definition ledger2 :: Portfolio where
  "ledger2 = snd (reduce_position ledger1 0 2 110 10 ''exit'')"

text \<open>
  A stop loss of 8 percent before a time exit of 30 days, and a store in which no rule
  object has recorded a peak yet.
\<close>

definition stop_then_time :: exit_rule where
  "stop_then_time = CompositeExitRule [(StopLossExit 0.08, 1), (TimeBasedExit 30, 1)]"

definition no_peaks :: peak_store where
  "no_peaks = (\<lambda>a. Map.empty)"

section \<open>Reference notions\<close>

text \<open>
  The signals in the order of their discovery: ticker by ticker, and for one ticker rule
  by rule. A sizer that one of the constructors returned.
\<close>

definition discovered :: "Strategy \<Rightarrow> int \<Rightarrow> data_provider \<Rightarrow> Portfolio option \<Rightarrow> Signal list" where
  "discovered s d dp pf =
     concat (map (\<lambda>ticker. List.map_filter (\<lambda>rule. should_enter rule ticker d dp pf) (entry_rules s))
               (universe s))"

definition sizer_ok :: "position_sizer \<Rightarrow> bool" where
  "sizer_ok ps \<longleftrightarrow>
     (\<exists>a. FixedDollarAmount_init a = Inr ps) \<or>
     (\<exists>a. PercentPortfolio_init a = Inr ps) \<or>
     (\<exists>a. PercentAvailableCash_init a = Inr ps) \<or>
     (\<exists>n. EqualWeight_init n = Inr ps) \<or>
     (\<exists>a. FixedShares_init a = Inr ps) \<or>
     (\<exists>a b c. RiskParity_init a b c = Inr ps)"

section \<open>Properties of the dictionaries and of a round trip\<close>

lemma dict_key_mem: "(k, v) \<in> set d \<Longrightarrow> k \<in> set (dict_keys d)"
  by (force simp: dict_keys_def)

lemma dict_keys_Cons [simp]: "dict_keys ((k, v) # d) = k # dict_keys d"
  by (simp add: dict_keys_def)

lemma dict_keys_Nil [simp]: "dict_keys [] = []"
  by (simp add: dict_keys_def)

lemma dict_get_Some_mem: "dict_get d k = Some v \<Longrightarrow> (k, v) \<in> set d"
  by (induction d) (auto split: if_splits)

lemma dict_get_None_iff: "dict_get d k = None \<longleftrightarrow> k \<notin> set (dict_keys d)"
  by (induction d) (auto split: if_splits)

lemma dict_get_mem_distinct:
  "distinct (dict_keys d) \<Longrightarrow> (k, v) \<in> set d \<Longrightarrow> dict_get d k = Some v"
  by (induction d) (auto dest: dict_key_mem)

lemma dict_get_dict_set: "dict_get (dict_set d k v) k' = (if k' = k then Some v else dict_get d k')"
  by (induction d) auto

lemma dict_keys_dict_set:
  "dict_keys (dict_set d k v) = (if k \<in> set (dict_keys d) then dict_keys d else dict_keys d @ [k])"
  by (induction d) auto

lemma dict_set_mem:
  "distinct (dict_keys d) \<Longrightarrow> (k', v') \<in> set (dict_set d k v) \<longleftrightarrow>
     (k' = k \<and> v' = v) \<or> (k' \<noteq> k \<and> (k', v') \<in> set d)"
  by (induction d) (auto dest: dict_key_mem split: if_splits)

lemma dict_keys_dict_del: "dict_keys (dict_del d k) = filter (\<lambda>x. x \<noteq> k) (dict_keys d)"
  by (induction d) (auto simp: dict_keys_def dict_del_def)

lemma dict_del_mem: "(k', v') \<in> set (dict_del d k) \<longleftrightarrow> k' \<noteq> k \<and> (k', v') \<in> set d"
  by (auto simp: dict_del_def)

lemma dict_get_dict_del: "dict_get (dict_del d k) k' = (if k' = k then None else dict_get d k')"
  by (induction d) (auto simp: dict_del_def)

lemma rt_transactions_add [simp]:
  "rt_transactions (add_transaction rt t) = rt_transactions rt @ [t]"
  by (simp add: add_transaction_def Let_def)

lemma rt_id_add [simp]: "rt_id (add_transaction rt t) = rt_id rt"
  by (simp add: add_transaction_def Let_def)

lemma rt_ticker_add [simp]: "rt_ticker (add_transaction rt t) = rt_ticker rt"
  by (simp add: add_transaction_def Let_def)

lemma rt_exit_rule_add [simp]: "rt_exit_rule (add_transaction rt t) = rt_exit_rule rt"
  by (simp add: add_transaction_def Let_def)

lemma remaining_shares_add_entry:
  "t_transaction_type t = ''open'' \<or> t_transaction_type t = ''add'' \<Longrightarrow>
   remaining_shares (add_transaction rt t) = remaining_shares rt + t_shares t"
  by (auto simp: remaining_shares_def entry_shares_def exit_shares_def Let_def)

lemma remaining_shares_add_exit:
  "t_transaction_type t = ''reduce'' \<Longrightarrow>
   remaining_shares (add_transaction rt t) = remaining_shares rt - t_shares t"
  by (auto simp: remaining_shares_def entry_shares_def exit_shares_def Let_def)

lemma open_position_cases:
  "open_position pf ticker date price shares0 xr md = (r, pf') \<Longrightarrow>
   (pf' = pf \<and> (r = Inr None \<or> (\<exists>e. r = Inl e))) \<or>
   (\<exists>c rt txn. calculate_entry_cost (transaction_cost pf) (round_shares pf shares0) price = Inr c \<and>
      0 < round_shares pf shares0 \<and>
      txn = \<lparr>t_id = next_uuid pf + 1, t_roundtrip_id = next_uuid pf,
                               t_ticker = ticker, t_date = date,
                               t_transaction_type = ''open'', t_shares = round_shares pf shares0,
                               t_price = price, t_net_amount = - c,
                               t_reason = ''signal''\<rparr> \<and>
      rt_id rt = next_uuid pf \<and> rt_transactions rt = [txn] \<and> rt_ticker rt = ticker \<and> rt_exit_rule rt = xr \<and>
      r = Inr (Some rt) \<and>
      pf' = pf\<lparr>cash := cash pf - c,
                   open_roundtrips := dict_set (open_roundtrips pf) (next_uuid pf) rt,
                   transaction_log := transaction_log pf @ [txn],
                   next_uuid := next_uuid pf + 2\<rparr>)"
  unfolding open_position_def Let_def
  by (auto split: if_splits sum.splits)


lemma calculate_entry_cost_Inr:
  "calculate_entry_cost tc shares price = Inr c \<Longrightarrow>
   0 < shares \<and> 0 < price \<and> c = shares * price + shares * price * slippage_pct tc + commission tc"
  by (auto simp: calculate_entry_cost_def Let_def split: if_splits)

lemma calculate_exit_value_Inr:
  "calculate_exit_value tc shares price = Inr v \<Longrightarrow>
   0 < shares \<and> 0 < price \<and> v = shares * price - shares * price * slippage_pct tc - commission tc"
  by (auto simp: calculate_exit_value_def Let_def split: if_splits)

lemma add_to_position_cases:
  "add_to_position pf k date price shares0 reason = (r, pf') \<Longrightarrow>
   (pf' = pf \<and> (r = Inr False \<or> (\<exists>e. r = Inl e))) \<or>
   (\<exists>c rt txn. dict_get (open_roundtrips pf) k = Some rt \<and>
      calculate_entry_cost (transaction_cost pf) (round_shares pf shares0) price = Inr c \<and>
      0 < round_shares pf shares0 \<and>
      txn = \<lparr>t_id = next_uuid pf, t_roundtrip_id = k,
                               t_ticker = rt_ticker rt, t_date = date,
                               t_transaction_type = ''add'', t_shares = round_shares pf shares0,
                               t_price = price, t_net_amount = - c,
                               t_reason = reason\<rparr> \<and>
      r = Inr True \<and>
      pf' = pf\<lparr>cash := cash pf - c,
                   open_roundtrips := dict_set (open_roundtrips pf) k (add_transaction rt txn),
                   transaction_log := transaction_log pf @ [txn],
                   next_uuid := next_uuid pf + 1\<rparr>)"
  unfolding add_to_position_def Let_def
  by (auto split: if_splits sum.splits option.splits)

lemma reduce_position_cases:
  "reduce_position pf k date price shares reason = (r, pf') \<Longrightarrow>
   (pf' = pf \<and> (\<exists>e. r = Inl e)) \<or>
   (\<exists>v rt txn. dict_get (open_roundtrips pf) k = Some rt \<and>
      calculate_exit_value (transaction_cost pf) shares price = Inr v \<and>
      shares \<le> remaining_shares rt \<and>
      txn = \<lparr>t_id = next_uuid pf, t_roundtrip_id = k,
                               t_ticker = rt_ticker rt, t_date = date,
                               t_transaction_type = ''reduce'', t_shares = shares,
                               t_price = price, t_net_amount = v,
                               t_reason = reason\<rparr> \<and>
      r = Inr (v - average_entry_price rt * shares) \<and>
      pf' = (if remaining_shares (add_transaction rt txn) = 0
             then pf\<lparr>cash := cash pf + v,
                   open_roundtrips := dict_del (dict_set (open_roundtrips pf) k (add_transaction rt txn)) k,
                   closed_roundtrips := closed_roundtrips pf @ [add_transaction rt txn],
                   transaction_log := transaction_log pf @ [txn],
                   next_uuid := next_uuid pf + 1\<rparr>
             else pf\<lparr>cash := cash pf + v,
                   open_roundtrips := dict_set (open_roundtrips pf) k (add_transaction rt txn),
                   transaction_log := transaction_log pf @ [txn],
                   next_uuid := next_uuid pf + 1\<rparr>))"
proof (cases "dict_get (open_roundtrips pf) k")
  case None
  assume "reduce_position pf k date price shares reason = (r, pf')"
  with None have "pf' = pf \<and> r = Inl (ValueError RoundTrip_not_found)"
    by (simp add: reduce_position_def)
  then show ?thesis by blast
next
  case (Some rt)
  assume a: "reduce_position pf k date price shares reason = (r, pf')"
  show ?thesis
  proof (cases "shares > remaining_shares rt")
    case True
    with a Some have "pf' = pf \<and> r = Inl (ValueError Cannot_exit_shares)"
      by (simp add: reduce_position_def)
    then show ?thesis by blast
  next
    case False
    show ?thesis
    proof (cases "calculate_exit_value (transaction_cost pf) shares price")
      case (Inl e)
      with a Some False have "pf' = pf \<and> r = Inl e"
        by (simp add: reduce_position_def)
      then show ?thesis by blast
    next
      case (Inr v)
      with a Some False show ?thesis
        by (auto simp add: reduce_position_def Let_def split: if_splits)
    qed
  qed
qed

lemma remaining_shares_cong:
  "rt_transactions rt = rt_transactions rt' \<Longrightarrow> remaining_shares rt = remaining_shares rt'"
  by (simp add: remaining_shares_def)

lemma remaining_shares_single_open:
  "rt_transactions rt = [t] \<Longrightarrow> t_transaction_type t = ''open'' \<Longrightarrow> remaining_shares rt = t_shares t"
  by (simp add: remaining_shares_def entry_shares_def exit_shares_def)

lemma dict_keys_mem_ex: "k \<in> set (dict_keys d) \<Longrightarrow> \<exists>v. (k, v) \<in> set d"
  by (auto simp: dict_keys_def)

lemma ledger_inv_keys_less:
  "ledger_inv pf \<Longrightarrow> k \<in> set (dict_keys (open_roundtrips pf)) \<Longrightarrow> k < next_uuid pf"
  by (auto simp: ledger_inv_def dest!: dict_keys_mem_ex)

lemma ledger_inv_open_step:
  assumes inv: "ledger_inv pf"
    and t: "0 < t_shares txn" "t_transaction_type txn = ''open''" "t_roundtrip_id txn = next_uuid pf"
    and r: "rt_id rt = next_uuid pf" "rt_transactions rt = [txn]"
  shows "ledger_inv (pf\<lparr>cash := c, open_roundtrips := dict_set (open_roundtrips pf) (next_uuid pf) rt,
                   transaction_log := transaction_log pf @ [txn],
                   next_uuid := next_uuid pf + 2\<rparr>)"
proof -
  have fresh: "next_uuid pf \<notin> set (dict_keys (open_roundtrips pf))"
    using ledger_inv_keys_less [OF inv] by blast
  have d: "distinct (dict_keys (open_roundtrips pf))"
    using inv by (simp add: ledger_inv_def)
  have nolog: "filter (\<lambda>t. t_roundtrip_id t = next_uuid pf) (transaction_log pf) = []"
    using inv by (auto simp: ledger_inv_def filter_empty_conv)
  have rem: "remaining_shares rt = t_shares txn"
    using r t by (simp add: remaining_shares_single_open)
  show ?thesis
    unfolding ledger_inv_def
    using inv fresh d nolog rem t r
    by (auto simp: dict_keys_dict_set dict_set_mem ledger_inv_def less_Suc_eq dest: dict_key_mem)
qed


lemma ledger_inv_add_step:
  assumes inv: "ledger_inv pf"
    and g: "dict_get (open_roundtrips pf) k = Some rt"
    and t: "0 < t_shares txn" "t_transaction_type txn = ''add''" "t_roundtrip_id txn = k"
  shows "ledger_inv (pf\<lparr>cash := c,
                   open_roundtrips := dict_set (open_roundtrips pf) k (add_transaction rt txn),
                   transaction_log := transaction_log pf @ [txn],
                   next_uuid := next_uuid pf + 1\<rparr>)"
proof -
  have m: "(k, rt) \<in> set (open_roundtrips pf)"
    using g by (rule dict_get_Some_mem)
  have kin: "k \<in> set (dict_keys (open_roundtrips pf))"
    using m by (rule dict_key_mem)
  have d: "distinct (dict_keys (open_roundtrips pf))"
    using inv by (simp add: ledger_inv_def)
  have rem: "remaining_shares (add_transaction rt txn) = remaining_shares rt + t_shares txn"
    using t by (simp add: remaining_shares_add_entry)
  have old: "rt_id rt = k \<and> k < next_uuid pf \<and> 0 < remaining_shares rt \<and>
        rt_transactions rt = filter (\<lambda>t. t_roundtrip_id t = k) (transaction_log pf)"
    using inv m by (auto simp: ledger_inv_def)
  show ?thesis
    unfolding ledger_inv_def
    using inv kin d rem t old
    by (auto simp: dict_keys_dict_set dict_set_mem ledger_inv_def less_Suc_eq dest: dict_key_mem)
qed

lemma ledger_inv_reduce_step:
  assumes inv: "ledger_inv pf"
    and g: "dict_get (open_roundtrips pf) k = Some rt"
    and t: "0 < t_shares txn" "t_shares txn \<le> remaining_shares rt"
           "t_transaction_type txn = ''reduce''" "t_roundtrip_id txn = k"
  shows "ledger_inv (if remaining_shares (add_transaction rt txn) = 0
             then pf\<lparr>cash := c,
                   open_roundtrips := dict_del (dict_set (open_roundtrips pf) k (add_transaction rt txn)) k,
                   closed_roundtrips := closed_roundtrips pf @ [add_transaction rt txn],
                   transaction_log := transaction_log pf @ [txn],
                   next_uuid := next_uuid pf + 1\<rparr>
             else pf\<lparr>cash := c,
                   open_roundtrips := dict_set (open_roundtrips pf) k (add_transaction rt txn),
                   transaction_log := transaction_log pf @ [txn],
                   next_uuid := next_uuid pf + 1\<rparr>)"
proof -
  have m: "(k, rt) \<in> set (open_roundtrips pf)"
    using g by (rule dict_get_Some_mem)
  have kin: "k \<in> set (dict_keys (open_roundtrips pf))"
    using m by (rule dict_key_mem)
  have d: "distinct (dict_keys (open_roundtrips pf))"
    using inv by (simp add: ledger_inv_def)
  have rem: "remaining_shares (add_transaction rt txn) = remaining_shares rt - t_shares txn"
    using t by (simp add: remaining_shares_add_exit)
  have old: "rt_id rt = k \<and> k < next_uuid pf \<and> 0 < remaining_shares rt \<and>
        rt_transactions rt = filter (\<lambda>t. t_roundtrip_id t = k) (transaction_log pf)"
    using inv m by (auto simp: ledger_inv_def)
  show ?thesis
  proof (cases "remaining_shares (add_transaction rt txn) = 0")
    case True
    then show ?thesis
      unfolding ledger_inv_def
      using inv kin d rem t old
      by (auto simp: dict_keys_dict_set dict_keys_dict_del dict_del_mem dict_set_mem
                     ledger_inv_def less_Suc_eq dest: dict_key_mem)
  next
    case False
    then show ?thesis
      unfolding ledger_inv_def
      using inv kin d rem t old
      by (auto simp: dict_keys_dict_set dict_set_mem ledger_inv_def less_Suc_eq dest: dict_key_mem)
  qed
qed

lemma ledger_inv_init: "ledger_inv (Portfolio_init capital maxpos tc fractional)"
  by (simp add: ledger_inv_def Portfolio_init_def)

lemma ledger_inv_open_position:
  assumes "ledger_inv pf"
  shows "ledger_inv (snd (open_position pf ticker date price shares0 xr md))"
proof -
  obtain r pf' where e: "open_position pf ticker date price shares0 xr md = (r, pf')"
    by (cases "open_position pf ticker date price shares0 xr md")
  from open_position_cases [OF e] show ?thesis
  proof
    assume "pf' = pf \<and> (r = Inr None \<or> (\<exists>e. r = Inl e))"
    with assms e show ?thesis by simp
  next
    assume "\<exists>c rt txn. calculate_entry_cost (transaction_cost pf) (round_shares pf shares0) price = Inr c \<and>
      0 < round_shares pf shares0 \<and>
      txn = \<lparr>t_id = next_uuid pf + 1, t_roundtrip_id = next_uuid pf,
                               t_ticker = ticker, t_date = date,
                               t_transaction_type = ''open'', t_shares = round_shares pf shares0,
                               t_price = price, t_net_amount = - c,
                               t_reason = ''signal''\<rparr> \<and>
      rt_id rt = next_uuid pf \<and> rt_transactions rt = [txn] \<and> rt_ticker rt = ticker \<and> rt_exit_rule rt = xr \<and>
      r = Inr (Some rt) \<and>
      pf' = pf\<lparr>cash := cash pf - c,
                   open_roundtrips := dict_set (open_roundtrips pf) (next_uuid pf) rt,
                   transaction_log := transaction_log pf @ [txn],
                   next_uuid := next_uuid pf + 2\<rparr>"
    then obtain c rt txn where
      sh: "0 < round_shares pf shares0"
      and tx: "txn = \<lparr>t_id = next_uuid pf + 1, t_roundtrip_id = next_uuid pf,
                               t_ticker = ticker, t_date = date,
                               t_transaction_type = ''open'', t_shares = round_shares pf shares0,
                               t_price = price, t_net_amount = - c,
                               t_reason = ''signal''\<rparr>"
      and rt: "rt_id rt = next_uuid pf" "rt_transactions rt = [txn]"
      and pf': "pf' = pf\<lparr>cash := cash pf - c,
                   open_roundtrips := dict_set (open_roundtrips pf) (next_uuid pf) rt,
                   transaction_log := transaction_log pf @ [txn],
                   next_uuid := next_uuid pf + 2\<rparr>"
      by blast
    have p: "0 < t_shares txn" "t_transaction_type txn = ''open''" "t_roundtrip_id txn = next_uuid pf"
      using sh tx by simp_all
    show ?thesis
      using ledger_inv_open_step [OF assms p rt] e pf' by simp
  qed
qed


lemma ledger_inv_add_to_position:
  assumes "ledger_inv pf"
  shows "ledger_inv (snd (add_to_position pf k date price shares0 reason))"
proof -
  obtain r pf' where e: "add_to_position pf k date price shares0 reason = (r, pf')"
    by (cases "add_to_position pf k date price shares0 reason")
  from add_to_position_cases [OF e] show ?thesis
  proof
    assume "pf' = pf \<and> (r = Inr False \<or> (\<exists>e. r = Inl e))"
    with assms e show ?thesis by simp
  next
    assume "\<exists>c rt txn. dict_get (open_roundtrips pf) k = Some rt \<and>
      calculate_entry_cost (transaction_cost pf) (round_shares pf shares0) price = Inr c \<and>
      0 < round_shares pf shares0 \<and>
      txn = \<lparr>t_id = next_uuid pf, t_roundtrip_id = k,
                               t_ticker = rt_ticker rt, t_date = date,
                               t_transaction_type = ''add'', t_shares = round_shares pf shares0,
                               t_price = price, t_net_amount = - c,
                               t_reason = reason\<rparr> \<and>
      r = Inr True \<and>
      pf' = pf\<lparr>cash := cash pf - c,
                   open_roundtrips := dict_set (open_roundtrips pf) k (add_transaction rt txn),
                   transaction_log := transaction_log pf @ [txn],
                   next_uuid := next_uuid pf + 1\<rparr>"
    then obtain c rt txn where
      g: "dict_get (open_roundtrips pf) k = Some rt"
      and sh: "0 < round_shares pf shares0"
      and tx: "txn = \<lparr>t_id = next_uuid pf, t_roundtrip_id = k,
                               t_ticker = rt_ticker rt, t_date = date,
                               t_transaction_type = ''add'', t_shares = round_shares pf shares0,
                               t_price = price, t_net_amount = - c,
                               t_reason = reason\<rparr>"
      and pf': "pf' = pf\<lparr>cash := cash pf - c,
                   open_roundtrips := dict_set (open_roundtrips pf) k (add_transaction rt txn),
                   transaction_log := transaction_log pf @ [txn],
                   next_uuid := next_uuid pf + 1\<rparr>"
      by blast
    have p: "0 < t_shares txn" "t_transaction_type txn = ''add''" "t_roundtrip_id txn = k"
      using sh tx by simp_all
    show ?thesis
      using ledger_inv_add_step [OF assms g p] e pf' by simp
  qed
qed

lemma ledger_inv_reduce_position:
  assumes "ledger_inv pf"
  shows "ledger_inv (snd (reduce_position pf k date price shares reason))"
proof -
  obtain r pf' where e: "reduce_position pf k date price shares reason = (r, pf')"
    by (cases "reduce_position pf k date price shares reason")
  from reduce_position_cases [OF e] show ?thesis
  proof
    assume "pf' = pf \<and> (\<exists>e. r = Inl e)"
    with assms e show ?thesis by simp
  next
    assume "\<exists>v rt txn. dict_get (open_roundtrips pf) k = Some rt \<and>
      calculate_exit_value (transaction_cost pf) shares price = Inr v \<and>
      shares \<le> remaining_shares rt \<and>
      txn = \<lparr>t_id = next_uuid pf, t_roundtrip_id = k,
                               t_ticker = rt_ticker rt, t_date = date,
                               t_transaction_type = ''reduce'', t_shares = shares,
                               t_price = price, t_net_amount = v,
                               t_reason = reason\<rparr> \<and>
      r = Inr (v - average_entry_price rt * shares) \<and>
      pf' = (if remaining_shares (add_transaction rt txn) = 0
             then pf\<lparr>cash := cash pf + v,
                   open_roundtrips := dict_del (dict_set (open_roundtrips pf) k (add_transaction rt txn)) k,
                   closed_roundtrips := closed_roundtrips pf @ [add_transaction rt txn],
                   transaction_log := transaction_log pf @ [txn],
                   next_uuid := next_uuid pf + 1\<rparr>
             else pf\<lparr>cash := cash pf + v,
                   open_roundtrips := dict_set (open_roundtrips pf) k (add_transaction rt txn),
                   transaction_log := transaction_log pf @ [txn],
                   next_uuid := next_uuid pf + 1\<rparr>)"
    then obtain v rt txn where
      g: "dict_get (open_roundtrips pf) k = Some rt"
      and cv: "calculate_exit_value (transaction_cost pf) shares price = Inr v"
      and le: "shares \<le> remaining_shares rt"
      and tx: "txn = \<lparr>t_id = next_uuid pf, t_roundtrip_id = k,
                               t_ticker = rt_ticker rt, t_date = date,
                               t_transaction_type = ''reduce'', t_shares = shares,
                               t_price = price, t_net_amount = v,
                               t_reason = reason\<rparr>"
      and pf': "pf' = (if remaining_shares (add_transaction rt txn) = 0
             then pf\<lparr>cash := cash pf + v,
                   open_roundtrips := dict_del (dict_set (open_roundtrips pf) k (add_transaction rt txn)) k,
                   closed_roundtrips := closed_roundtrips pf @ [add_transaction rt txn],
                   transaction_log := transaction_log pf @ [txn],
                   next_uuid := next_uuid pf + 1\<rparr>
             else pf\<lparr>cash := cash pf + v,
                   open_roundtrips := dict_set (open_roundtrips pf) k (add_transaction rt txn),
                   transaction_log := transaction_log pf @ [txn],
                   next_uuid := next_uuid pf + 1\<rparr>)"
      by blast
    have p: "0 < t_shares txn" "t_shares txn \<le> remaining_shares rt"
            "t_transaction_type txn = ''reduce''" "t_roundtrip_id txn = k"
      using calculate_exit_value_Inr [OF cv] le tx by simp_all
    show ?thesis
      using ledger_inv_reduce_step [OF assms g p] e pf' by simp
  qed
qed

lemma ledger_inv_close_position:
  assumes "ledger_inv pf"
  shows "ledger_inv (snd (close_position pf k date price reason))"
  using assms ledger_inv_reduce_position [OF assms]
  by (simp add: close_position_def split: option.splits)

lemma ledger_inv_apply_op:
  assumes "ledger_inv pf"
  shows "ledger_inv (snd (apply_op pf x))"
proof (cases x)
  case (OpenPosition ticker date price shares xr md)
  then show ?thesis
    using ledger_inv_open_position [OF assms, of ticker date price shares xr md]
    by (auto split: prod.splits sum.splits option.splits)
next
  case (AddToPosition k date price shares reason)
  then show ?thesis
    using ledger_inv_add_to_position [OF assms, of k date price shares reason]
    by (auto split: prod.splits sum.splits)
next
  case (ReducePosition k date price shares reason)
  then show ?thesis
    using ledger_inv_reduce_position [OF assms, of k date price shares reason]
    by (auto split: prod.splits sum.splits)
next
  case (ClosePosition k date price reason)
  then show ?thesis
    using ledger_inv_close_position [OF assms, of k date price reason]
    by (auto split: prod.splits sum.splits)
qed

lemma ledger_inv_record_equity: "ledger_inv pf \<Longrightarrow> ledger_inv (record_equity pf date val)"
  by (simp add: ledger_inv_def record_equity_def)

lemma reachable_ledger_inv: "reachable pf \<Longrightarrow> ledger_inv pf"
  by (induction rule: reachable.induct)
     (simp_all add: ledger_inv_init ledger_inv_apply_op ledger_inv_record_equity)

lemma run_ops_ledger_inv: "ledger_inv pf \<Longrightarrow> ledger_inv (run_ops pf xs)"
  by (induction xs arbitrary: pf) (simp_all add: ledger_inv_apply_op)

lemma run_ops_reachable: "reachable pf \<Longrightarrow> reachable (run_ops pf xs)"
  by (induction xs arbitrary: pf) (simp_all add: reachable.step)

lemma apply_op_cash:
  assumes "apply_op pf x = (True, pf')"
  shows "cash pf' = cash pf - sum_list (entry_costs_of pf x) + sum_list (exit_values_of pf x)"
proof (cases x)
  case (OpenPosition ticker date price shares xr md)
  obtain r q where e: "open_position pf ticker date price shares xr md = (r, q)"
    by (cases "open_position pf ticker date price shares xr md")
  with assms OpenPosition have "q = pf'" "\<exists>rt. r = Inr (Some rt)"
    by (auto split: sum.splits option.splits)
  with open_position_cases [OF e] OpenPosition show ?thesis
    by auto
next
  case (AddToPosition k date price shares reason)
  obtain r q where e: "add_to_position pf k date price shares reason = (r, q)"
    by (cases "add_to_position pf k date price shares reason")
  with assms AddToPosition have "q = pf'" "r = Inr True"
    by (auto split: sum.splits)
  with add_to_position_cases [OF e] AddToPosition show ?thesis
    by auto
next
  case (ReducePosition k date price shares reason)
  obtain r q where e: "reduce_position pf k date price shares reason = (r, q)"
    by (cases "reduce_position pf k date price shares reason")
  with assms ReducePosition have "q = pf'" "\<exists>pnl. r = Inr pnl"
    by (auto split: sum.splits)
  with reduce_position_cases [OF e] ReducePosition show ?thesis
    by (auto split: if_splits)
next
  case (ClosePosition k date price reason)
  show ?thesis
  proof (cases "dict_get (open_roundtrips pf) k")
    case None
    with assms ClosePosition show ?thesis by (simp add: close_position_def)
  next
    case (Some rt)
    obtain r q where e: "reduce_position pf k date price (remaining_shares rt) reason = (r, q)"
      by (cases "reduce_position pf k date price (remaining_shares rt) reason")
    with assms ClosePosition Some have "q = pf'" "\<exists>pnl. r = Inr pnl"
      by (auto simp: close_position_def split: sum.splits)
    with reduce_position_cases [OF e] ClosePosition Some show ?thesis
      by (auto split: if_splits)
  qed
qed

section \<open>The ledger: cash and shares\<close>

text \<open>
  Claim C1 (cash conservation). For every sequence of successful ledger operations
  (open, add, reduce, close), whatever the commission and the slippage, the final cash is
  the initial cash minus the sum of the entry costs that \<open>calculate_entry_cost\<close>
  returned plus the sum of the exit values that \<open>calculate_exit_value\<close> returned.
\<close>

theorem cash_conservation:
  "run_successful pf xs = Some (pf', cs, vs) \<Longrightarrow>
   cash pf' = cash pf - sum_list cs + sum_list vs"
proof (induction xs arbitrary: pf pf' cs vs)
  case Nil
  then show ?case by simp
next
  case (Cons x xs)
  from Cons.prems obtain pf1 where a: "apply_op pf x = (True, pf1)"
    by (cases "apply_op pf x") (auto split: bool.splits)
  with Cons.prems obtain cs1 vs1 where
    r: "run_successful pf1 xs = Some (pf', cs1, vs1)"
    and c: "cs = entry_costs_of pf x @ cs1" and v: "vs = exit_values_of pf x @ vs1"
    by (auto split: option.splits)
  from Cons.IH [OF r] apply_op_cash [OF a] c v show ?case by simp
qed

lemma scenario_run_eq:
  "run_successful ledger0 scenario_ops = Some (run_ops ledger0 scenario_ops, [1000, 450], [1650])"
  by (simp add: ledger0_def scenario_ops_def Portfolio_init_def open_position_def add_to_position_def
        close_position_def reduce_position_def round_shares_def can_open_position_def
        calculate_entry_cost_def calculate_exit_value_def Let_def add_transaction_def
        remaining_shares_def entry_shares_def exit_shares_def average_entry_price_def total_shares_def
        dict_del_def)

text \<open>
  The scenario of the specification: open 10 at 100, add 5 at 90, close all at 110 on a
  ledger of 10,000 without costs. The costs are 1000 and 450, the proceeds 1650, the
  cash goes to 10,200.
\<close>

theorem cash_conservation_witness:
  "run_successful ledger0 scenario_ops = Some (run_ops ledger0 scenario_ops, [1000, 450], [1650]) \<and>
   cash ledger0 = 10000 \<and> cash (run_ops ledger0 scenario_ops) = 10200"
  using cash_conservation [OF scenario_run_eq] scenario_run_eq
  by (simp add: ledger0_def Portfolio_init_def)

lemma ledger_inv_open_mem:
  assumes "ledger_inv pf" "rt \<in> set (dict_values (open_roundtrips pf))"
  shows "rt_transactions rt = filter (\<lambda>t. t_roundtrip_id t = rt_id rt) (transaction_log pf) \<and>
         0 < remaining_shares rt \<and> dict_get (open_roundtrips pf) (rt_id rt) = Some rt"
proof -
  from assms(2) obtain k where m: "(k, rt) \<in> set (open_roundtrips pf)"
    by (auto simp: dict_values_def)
  with assms(1) have "rt_id rt = k \<and> 0 < remaining_shares rt \<and>
      rt_transactions rt = filter (\<lambda>t. t_roundtrip_id t = k) (transaction_log pf)"
    by (auto simp: ledger_inv_def)
  moreover have "dict_get (open_roundtrips pf) k = Some rt"
    using assms(1) m by (simp add: ledger_inv_def dict_get_mem_distinct)
  ultimately show ?thesis by simp
qed

lemma ledger_inv_closed_mem:
  assumes "ledger_inv pf" "rt \<in> set (closed_roundtrips pf)"
  shows "rt_transactions rt = filter (\<lambda>t. t_roundtrip_id t = rt_id rt) (transaction_log pf) \<and>
         remaining_shares rt = 0 \<and> dict_get (open_roundtrips pf) (rt_id rt) = None"
  using assms by (auto simp: ledger_inv_def dict_get_None_iff)

lemma remaining_shares_sums:
  "remaining_shares rt =
     sum_list (map t_shares (filter (\<lambda>t. t_transaction_type t = ''open'' \<or> t_transaction_type t = ''add'')
                                (rt_transactions rt)))
   - sum_list (map t_shares (filter (\<lambda>t. t_transaction_type t = ''reduce'' \<or> t_transaction_type t = ''close'')
                                (rt_transactions rt)))"
  by (simp add: remaining_shares_def entry_shares_def exit_shares_def)

lemma reduce_position_too_many:
  "dict_get (open_roundtrips pf) k = Some rt \<Longrightarrow> remaining_shares rt < shares \<Longrightarrow>
   reduce_position pf k date price shares reason = (Inl (ValueError Cannot_exit_shares), pf)"
  by (simp add: reduce_position_def)

text \<open>
  Claim C2 (share conservation). In every ledger reached through the operations, every
  round trip, open or closed, owns exactly the transactions of the flat log that carry its
  id; its \<open>remaining_shares\<close> is the sum of the shares of its open and add
  transactions minus the sum of the shares of its reduce and close transactions, and is
  never negative. \<open>reduce_position\<close> asked for more than \<open>remaining_shares\<close>
  raises and leaves the ledger as it was; \<open>close_position\<close> asks for exactly
  \<open>remaining_shares\<close>.
\<close>

theorem share_conservation:
  assumes "reachable pf"
  shows "(\<forall>rt \<in> set (dict_values (open_roundtrips pf)) \<union> set (closed_roundtrips pf).
            rt_transactions rt = filter (\<lambda>t. t_roundtrip_id t = rt_id rt) (transaction_log pf) \<and>
            remaining_shares rt =
              sum_list (map t_shares
                (filter (\<lambda>t. t_transaction_type t = ''open'' \<or> t_transaction_type t = ''add'')
                   (rt_transactions rt)))
            - sum_list (map t_shares
                (filter (\<lambda>t. t_transaction_type t = ''reduce'' \<or> t_transaction_type t = ''close'')
                   (rt_transactions rt))) \<and>
            0 \<le> remaining_shares rt) \<and>
         (\<forall>k rt shares date price reason.
            dict_get (open_roundtrips pf) k = Some rt \<and> remaining_shares rt < shares \<longrightarrow>
            reduce_position pf k date price shares reason
              = (Inl (ValueError Cannot_exit_shares), pf)) \<and>
         (\<forall>k rt date price reason.
            dict_get (open_roundtrips pf) k = Some rt \<longrightarrow>
            close_position pf k date price reason
              = reduce_position pf k date price (remaining_shares rt) reason)"
proof -
  have inv: "ledger_inv pf"
    using assms by (rule reachable_ledger_inv)
  have a: "\<forall>rt \<in> set (dict_values (open_roundtrips pf)) \<union> set (closed_roundtrips pf).
            rt_transactions rt = filter (\<lambda>t. t_roundtrip_id t = rt_id rt) (transaction_log pf) \<and>
            0 \<le> remaining_shares rt"
    using ledger_inv_open_mem [OF inv] ledger_inv_closed_mem [OF inv] by fastforce
  have b: "\<forall>k rt shares date price reason.
            dict_get (open_roundtrips pf) k = Some rt \<and> remaining_shares rt < shares \<longrightarrow>
            reduce_position pf k date price shares reason
              = (Inl (ValueError Cannot_exit_shares), pf)"
    by (simp add: reduce_position_too_many)
  have c: "\<forall>k rt date price reason.
            dict_get (open_roundtrips pf) k = Some rt \<longrightarrow>
            close_position pf k date price reason
              = reduce_position pf k date price (remaining_shares rt) reason"
    by (simp add: close_position_def)
  from a b c remaining_shares_sums show ?thesis by blast
qed

text \<open>
  Claim C10 (reducing by no shares). On an open round trip of a reachable ledger,
  \<open>reduce_position\<close> with \<open>shares \<le> 0\<close> raises the \<open>ValueError\<close> of
  \<open>calculate_exit_value\<close>, and the ledger (cash, round trips, log) is as before the call.
\<close>

theorem reduce_nonpositive_shares:
  assumes "reachable pf" and "dict_get (open_roundtrips pf) k = Some rt" and "shares \<le> 0"
  shows "reduce_position pf k date price shares reason
           = (Inl (ValueError Shares_must_be_positive), pf) \<and>
         calculate_exit_value (transaction_cost pf) shares price
           = Inl (ValueError Shares_must_be_positive)"
proof -
  have "ledger_inv pf"
    using assms(1) by (rule reachable_ledger_inv)
  moreover have "(k, rt) \<in> set (open_roundtrips pf)"
    using assms(2) by (rule dict_get_Some_mem)
  ultimately have "0 < remaining_shares rt"
    by (auto simp: ledger_inv_def)
  with assms(2,3) show ?thesis
    by (simp add: reduce_position_def calculate_exit_value_def)
qed

lemmas eval_defs =
  Portfolio_init_def open_position_def add_to_position_def
  close_position_def reduce_position_def round_shares_def can_open_position_def
  calculate_entry_cost_def calculate_exit_value_def Let_def add_transaction_def
  remaining_shares_def entry_shares_def exit_shares_def average_entry_price_def total_shares_def
  dict_del_def

lemma ledger1_eq:
  "ledger1 = \<lparr>starting_capital = 10000, cash = 9000, max_positions = 5,
      transaction_cost = \<lparr>commission = 0, slippage_pct = 0\<rparr>, fractional_shares = True,
      open_roundtrips = [(0, position1)], closed_roundtrips = [],
      transaction_log = rt_transactions position1,
      equity_history = [], next_uuid = 2\<rparr>"
  by (simp add: ledger1_def ledger0_def position1_def eval_defs)

lemma reachable_ledger0: "reachable ledger0"
  unfolding ledger0_def by (rule reachable.init)

lemma reachable_ledger1: "reachable ledger1"
  unfolding ledger1_def by (rule run_ops_reachable [OF reachable_ledger0])

theorem share_conservation_witness:
  "position1 \<in> set (dict_values (open_roundtrips ledger1)) \<union> set (closed_roundtrips ledger1) \<and>
   rt_transactions position1
     = filter (\<lambda>t. t_roundtrip_id t = rt_id position1) (transaction_log ledger1) \<and>
   remaining_shares position1 = 10 \<and>
   dict_get (open_roundtrips ledger1) 0 = Some position1 \<and>
   remaining_shares position1 < 20 \<and>
   reduce_position ledger1 0 2 110 20 ''invalid'' = (Inl (ValueError Cannot_exit_shares), ledger1) \<and>
   close_position ledger1 0 2 110 ''exit'' = reduce_position ledger1 0 2 110 10 ''exit''"
proof -
  have m: "position1 \<in> set (dict_values (open_roundtrips ledger1)) \<union> set (closed_roundtrips ledger1)"
    by (simp add: ledger1_eq dict_values_def)
  have g: "dict_get (open_roundtrips ledger1) 0 = Some position1"
    by (simp add: ledger1_eq)
  have r: "remaining_shares position1 = 10"
    by (simp add: position1_def remaining_shares_def entry_shares_def exit_shares_def)
  note s = share_conservation [OF reachable_ledger1]
  from s m have "rt_transactions position1
     = filter (\<lambda>t. t_roundtrip_id t = rt_id position1) (transaction_log ledger1)"
    by blast
  moreover from s have
    "dict_get (open_roundtrips ledger1) 0 = Some position1 \<and> remaining_shares position1 < 20 \<longrightarrow>
     reduce_position ledger1 0 2 110 20 ''invalid'' = (Inl (ValueError Cannot_exit_shares), ledger1)"
    by blast
  moreover from s have
    "dict_get (open_roundtrips ledger1) 0 = Some position1 \<longrightarrow>
     close_position ledger1 0 2 110 ''exit''
       = reduce_position ledger1 0 2 110 (remaining_shares position1) ''exit''"
    by blast
  ultimately show ?thesis using m g r by simp
qed

theorem reduce_nonpositive_shares_witness:
  "dict_get (open_roundtrips ledger1) 0 = Some position1 \<and> (0::real) \<le> 0 \<and>
   reduce_position ledger1 0 2 110 0 ''exit'' = (Inl (ValueError Shares_must_be_positive), ledger1) \<and>
   calculate_exit_value (transaction_cost ledger1) 0 110 = Inl (ValueError Shares_must_be_positive)"
proof -
  have g: "dict_get (open_roundtrips ledger1) 0 = Some position1"
    by (simp add: ledger1_eq)
  show ?thesis
    using reduce_nonpositive_shares [OF reachable_ledger1 g, of 0 2 110 "''exit''"] g by simp
qed

subsection \<open>Closing and opening\<close>

lemma dict_set_fresh: "k \<notin> set (dict_keys d) \<Longrightarrow> dict_set d k v = d @ [(k, v)]"
  by (induction d) auto

lemma dict_get_Some_key: "dict_get d k = Some v \<Longrightarrow> k \<in> set (dict_keys d)"
  by (blast dest: dict_get_Some_mem dict_key_mem)

lemma open_position_step:
  "next_uuid pf \<le> next_uuid (snd (open_position pf ticker date price shares0 xr md)) \<and>
   set (dict_keys (open_roundtrips (snd (open_position pf ticker date price shares0 xr md))))
     \<subseteq> insert (next_uuid pf) (set (dict_keys (open_roundtrips pf))) \<and>
   closed_roundtrips (snd (open_position pf ticker date price shares0 xr md)) = closed_roundtrips pf"
proof -
  obtain r pf' where e: "open_position pf ticker date price shares0 xr md = (r, pf')"
    by (cases "open_position pf ticker date price shares0 xr md")
  from open_position_cases [OF e] e show ?thesis
    by (auto simp: dict_keys_dict_set split: if_splits)
qed

lemma add_to_position_step:
  "next_uuid pf \<le> next_uuid (snd (add_to_position pf k date price shares0 reason)) \<and>
   set (dict_keys (open_roundtrips (snd (add_to_position pf k date price shares0 reason))))
     \<subseteq> set (dict_keys (open_roundtrips pf)) \<and>
   closed_roundtrips (snd (add_to_position pf k date price shares0 reason)) = closed_roundtrips pf"
proof -
  obtain r pf' where e: "add_to_position pf k date price shares0 reason = (r, pf')"
    by (cases "add_to_position pf k date price shares0 reason")
  from add_to_position_cases [OF e] e show ?thesis
    by (auto simp: dict_keys_dict_set dict_get_Some_key split: if_splits)
qed

lemma reduce_position_step:
  "next_uuid pf \<le> next_uuid (snd (reduce_position pf k date price shares reason)) \<and>
   set (dict_keys (open_roundtrips (snd (reduce_position pf k date price shares reason))))
     \<subseteq> set (dict_keys (open_roundtrips pf)) \<and>
   (\<exists>ys. closed_roundtrips (snd (reduce_position pf k date price shares reason))
           = closed_roundtrips pf @ ys)"
proof -
  obtain r pf' where e: "reduce_position pf k date price shares reason = (r, pf')"
    by (cases "reduce_position pf k date price shares reason")
  from reduce_position_cases [OF e] e show ?thesis
    by (auto simp: dict_keys_dict_set dict_keys_dict_del dict_get_Some_key split: if_splits)
qed

lemma apply_op_step:
  "next_uuid pf \<le> next_uuid (snd (apply_op pf x)) \<and>
   set (dict_keys (open_roundtrips (snd (apply_op pf x))))
     \<subseteq> insert (next_uuid pf) (set (dict_keys (open_roundtrips pf))) \<and>
   (\<exists>ys. closed_roundtrips (snd (apply_op pf x)) = closed_roundtrips pf @ ys)"
proof (cases x)
  case (OpenPosition ticker date price shares xr md)
  with open_position_step [of pf ticker date price shares xr md] show ?thesis
    by (auto split: prod.splits sum.splits option.splits)
next
  case (AddToPosition k date price shares reason)
  with add_to_position_step [of pf k date price shares reason] show ?thesis
    by (auto split: prod.splits sum.splits)
next
  case (ReducePosition k date price shares reason)
  with reduce_position_step [of pf k date price shares reason] show ?thesis
    by (auto split: prod.splits sum.splits)
next
  case (ClosePosition k date price reason)
  show ?thesis
  proof (cases "dict_get (open_roundtrips pf) k")
    case None
    with ClosePosition show ?thesis by (auto simp: close_position_def)
  next
    case (Some rt)
    with ClosePosition reduce_position_step [of pf k date price "remaining_shares rt" reason]
    show ?thesis
      by (auto simp: close_position_def split: prod.splits sum.splits)
  qed
qed

lemma run_ops_never_reopens:
  "k < next_uuid pf \<Longrightarrow> k \<notin> set (dict_keys (open_roundtrips pf)) \<Longrightarrow>
   k \<notin> set (dict_keys (open_roundtrips (run_ops pf xs)))"
proof (induction xs arbitrary: pf)
  case Nil
  then show ?case by simp
next
  case (Cons x xs)
  from apply_op_step [of pf x] Cons.prems
  have "k < next_uuid (snd (apply_op pf x))"
    and "k \<notin> set (dict_keys (open_roundtrips (snd (apply_op pf x))))"
    by auto
  then show ?case using Cons.IH by simp
qed

lemma run_ops_keeps_closed:
  "rt \<in> set (closed_roundtrips pf) \<Longrightarrow> rt \<in> set (closed_roundtrips (run_ops pf xs))"
proof (induction xs arbitrary: pf)
  case Nil
  then show ?case by simp
next
  case (Cons x xs)
  from apply_op_step [of pf x] Cons.prems
  have "rt \<in> set (closed_roundtrips (snd (apply_op pf x)))"
    by auto
  then show ?case using Cons.IH by simp
qed

lemma unknown_id_raises:
  assumes "k \<notin> set (dict_keys (open_roundtrips pf))"
  shows "reduce_position pf k date price shares reason = (Inl (ValueError RoundTrip_not_found), pf)"
    and "close_position pf k date price reason = (Inl (ValueError RoundTrip_not_found), pf)"
    and "add_to_position pf k date price shares reason = (Inl (ValueError RoundTrip_not_found), pf)"
  using assms
  by (simp_all add: reduce_position_def close_position_def add_to_position_def
        dict_get_None_iff [symmetric])

text \<open>
  Claim C4 (idempotent closure). When \<open>reduce_position\<close> sells all the remaining
  shares of a round trip, the same call appends the transaction to the log, appends the
  round trip to \<open>closed_roundtrips\<close> and removes it from \<open>open_roundtrips\<close>.
  Whatever calls follow, the id is never a key of \<open>open_roundtrips\<close> again, the round
  trip stays in the closed list, and \<open>reduce_position\<close>, \<open>close_position\<close> and
  \<open>add_to_position\<close> with that id raise.
\<close>

theorem idempotent_closure:
  assumes "reachable pf"
    and "dict_get (open_roundtrips pf) k = Some rt"
    and "reduce_position pf k date price shares reason = (Inr pnl, pf')"
    and "shares = remaining_shares rt"
  shows "\<exists>txn. t_transaction_type txn = ''reduce'' \<and> t_shares txn = shares \<and>
           t_roundtrip_id txn = k \<and>
           remaining_shares (add_transaction rt txn) = 0 \<and>
           transaction_log pf' = transaction_log pf @ [txn] \<and>
           closed_roundtrips pf' = closed_roundtrips pf @ [add_transaction rt txn] \<and>
           k \<notin> set (dict_keys (open_roundtrips pf')) \<and>
           (\<forall>xs. k \<notin> set (dict_keys (open_roundtrips (run_ops pf' xs))) \<and>
                 add_transaction rt txn \<in> set (closed_roundtrips (run_ops pf' xs)) \<and>
                 (\<forall>d p s r.
                    reduce_position (run_ops pf' xs) k d p s r
                      = (Inl (ValueError RoundTrip_not_found), run_ops pf' xs) \<and>
                    close_position (run_ops pf' xs) k d p r
                      = (Inl (ValueError RoundTrip_not_found), run_ops pf' xs) \<and>
                    add_to_position (run_ops pf' xs) k d p s r
                      = (Inl (ValueError RoundTrip_not_found), run_ops pf' xs)))"
proof -
  have inv: "ledger_inv pf"
    using assms(1) by (rule reachable_ledger_inv)
  have kin: "k \<in> set (dict_keys (open_roundtrips pf))"
    using assms(2) by (blast dest: dict_get_Some_mem dict_key_mem)
  have klt: "k < next_uuid pf"
    using inv kin by (rule ledger_inv_keys_less)
  from reduce_position_cases [OF assms(3)] assms(2) obtain v txn where
    cv: "calculate_exit_value (transaction_cost pf) shares price = Inr v"
    and tx: "txn = \<lparr>t_id = next_uuid pf, t_roundtrip_id = k,
                               t_ticker = rt_ticker rt, t_date = date,
                               t_transaction_type = ''reduce'', t_shares = shares,
                               t_price = price, t_net_amount = v,
                               t_reason = reason\<rparr>"
    and pf': "pf' = (if remaining_shares (add_transaction rt txn) = 0
             then pf\<lparr>cash := cash pf + v,
                   open_roundtrips := dict_del (dict_set (open_roundtrips pf) k (add_transaction rt txn)) k,
                   closed_roundtrips := closed_roundtrips pf @ [add_transaction rt txn],
                   transaction_log := transaction_log pf @ [txn],
                   next_uuid := next_uuid pf + 1\<rparr>
             else pf\<lparr>cash := cash pf + v,
                   open_roundtrips := dict_set (open_roundtrips pf) k (add_transaction rt txn),
                   transaction_log := transaction_log pf @ [txn],
                   next_uuid := next_uuid pf + 1\<rparr>)"
    by auto
  have t: "t_transaction_type txn = ''reduce''" "t_shares txn = shares" "t_roundtrip_id txn = k"
    using tx by simp_all
  have z: "remaining_shares (add_transaction rt txn) = 0"
    using t assms(4) by (simp add: remaining_shares_add_exit)
  have post: "transaction_log pf' = transaction_log pf @ [txn]"
    "closed_roundtrips pf' = closed_roundtrips pf @ [add_transaction rt txn]"
    "k \<notin> set (dict_keys (open_roundtrips pf'))" "k < next_uuid pf'"
    using pf' z klt by (simp_all add: dict_keys_dict_del)
  have later: "k \<notin> set (dict_keys (open_roundtrips (run_ops pf' xs)))"
    "add_transaction rt txn \<in> set (closed_roundtrips (run_ops pf' xs))" for xs
    using post by (simp_all add: run_ops_never_reopens run_ops_keeps_closed)
  show ?thesis
    using t z post later unknown_id_raises [OF later(1)] by blast
qed

lemma reduce_ledger1: "reduce_position ledger1 0 2 110 10 ''exit'' = (Inr 100, ledger2)"
proof -
  have "fst (reduce_position ledger1 0 2 110 10 ''exit'') = Inr 100"
    by (simp add: ledger1_eq position1_def eval_defs)
  then show ?thesis
    by (simp add: ledger2_def prod_eq_iff)
qed

theorem idempotent_closure_witness:
  "dict_get (open_roundtrips ledger1) 0 = Some position1 \<and>
   reduce_position ledger1 0 2 110 10 ''exit'' = (Inr 100, ledger2) \<and>
   10 = remaining_shares position1 \<and>
   length (closed_roundtrips ledger2) = length (closed_roundtrips ledger1) + 1 \<and>
   0 \<notin> set (dict_keys (open_roundtrips ledger2)) \<and>
   0 \<notin> set (dict_keys (open_roundtrips
                (run_ops ledger2 [OpenPosition ''MSFT'' 3 50 4 None None]))) \<and>
   reduce_position (run_ops ledger2 [OpenPosition ''MSFT'' 3 50 4 None None]) 0 4 120 1 ''again''
     = (Inl (ValueError RoundTrip_not_found),
        run_ops ledger2 [OpenPosition ''MSFT'' 3 50 4 None None])"
proof -
  have g: "dict_get (open_roundtrips ledger1) 0 = Some position1"
    by (simp add: ledger1_eq)
  have r: "10 = remaining_shares position1"
    by (simp add: position1_def remaining_shares_def entry_shares_def exit_shares_def)
  from idempotent_closure [OF reachable_ledger1 g reduce_ledger1 r]
  obtain txn where
    cl: "closed_roundtrips ledger2 = closed_roundtrips ledger1 @ [add_transaction position1 txn]"
    and nk: "0 \<notin> set (dict_keys (open_roundtrips ledger2))"
    and later: "\<forall>xs. 0 \<notin> set (dict_keys (open_roundtrips (run_ops ledger2 xs))) \<and>
                 (\<forall>d p s r. reduce_position (run_ops ledger2 xs) 0 d p s r
                      = (Inl (ValueError RoundTrip_not_found), run_ops ledger2 xs))"
    by blast
  from cl have "length (closed_roundtrips ledger2) = length (closed_roundtrips ledger1) + 1"
    by simp
  with later nk g r reduce_ledger1 show ?thesis
    by blast
qed

lemma calculate_entry_cost_pos:
  "0 < shares \<Longrightarrow> 0 < price \<Longrightarrow>
   \<exists>c. calculate_entry_cost tc shares price = Inr c"
  by (simp add: calculate_entry_cost_def Let_def)

text \<open>
  Claim C3 (refusal of \<open>open_position\<close>), as amended. For a positive price,
  \<open>open_position\<close> returns \<open>None\<close> exactly when the rounded shares are not
  positive, or the ledger is at capacity, or the entry cost exceeds the cash, and then the
  ledger is unchanged; otherwise it debits the entry cost, creates a round trip with the one
  transaction of type open, registers it under a new id and appends the transaction to
  the log, and changes nothing else. For a price that is not positive, with positive
  rounded shares and room in the ledger, it raises the \<open>ValueError\<close> of
  \<open>calculate_entry_cost\<close> and the ledger is unchanged.
\<close>

theorem open_position_outcome:
  assumes "reachable pf"
  shows "(0 < price \<longrightarrow>
           (fst (open_position pf ticker date price shares0 xr md) = Inr None \<longleftrightarrow>
              round_shares pf shares0 \<le> 0 \<or>
              max_positions pf \<le> int (length (open_roundtrips pf)) \<or>
              (\<exists>c. calculate_entry_cost (transaction_cost pf) (round_shares pf shares0) price = Inr c
                   \<and> cash pf < c)) \<and>
           (fst (open_position pf ticker date price shares0 xr md) = Inr None \<longrightarrow>
              snd (open_position pf ticker date price shares0 xr md) = pf) \<and>
           (fst (open_position pf ticker date price shares0 xr md) \<noteq> Inr None \<longrightarrow>
              (\<exists>c txn rt.
                 calculate_entry_cost (transaction_cost pf) (round_shares pf shares0) price = Inr c \<and>
                 open_position pf ticker date price shares0 xr md
                   = (Inr (Some rt),
                      pf\<lparr>cash := cash pf - c,
                         open_roundtrips := open_roundtrips pf @ [(rt_id rt, rt)],
                         transaction_log := transaction_log pf @ [txn],
                         next_uuid := next_uuid pf + 2\<rparr>) \<and>
                 rt_id rt \<notin> set (dict_keys (open_roundtrips pf)) \<and>
                 rt_ticker rt = ticker \<and> rt_exit_rule rt = xr \<and>
                 rt_transactions rt = [txn] \<and>
                 t_transaction_type txn = ''open'' \<and> t_roundtrip_id txn = rt_id rt \<and>
                 t_ticker txn = ticker \<and> t_date txn = date \<and>
                 t_shares txn = round_shares pf shares0 \<and> t_price txn = price \<and>
                 t_net_amount txn = - c))) \<and>
         (price \<le> 0 \<and> 0 < round_shares pf shares0 \<and> can_open_position pf \<longrightarrow>
            open_position pf ticker date price shares0 xr md
              = (Inl (ValueError Price_must_be_positive), pf))"
proof -
  let ?r = "open_position pf ticker date price shares0 xr md"
  let ?sh = "round_shares pf shares0"
  have inv: "ledger_inv pf"
    using assms by (rule reachable_ledger_inv)
  have fresh: "next_uuid pf \<notin> set (dict_keys (open_roundtrips pf))"
    using ledger_inv_keys_less [OF inv] by blast
  have neg: "price \<le> 0 \<and> 0 < ?sh \<and> can_open_position pf \<longrightarrow>
            ?r = (Inl (ValueError Price_must_be_positive), pf)"
    by (simp add: open_position_def calculate_entry_cost_def Let_def)
  have pos: "(fst ?r = Inr None \<longleftrightarrow>
              ?sh \<le> 0 \<or> max_positions pf \<le> int (length (open_roundtrips pf)) \<or>
              (\<exists>c. calculate_entry_cost (transaction_cost pf) ?sh price = Inr c \<and> cash pf < c)) \<and>
           (fst ?r = Inr None \<longrightarrow> snd ?r = pf) \<and>
           (fst ?r \<noteq> Inr None \<longrightarrow>
              (\<exists>c txn rt.
                 calculate_entry_cost (transaction_cost pf) ?sh price = Inr c \<and>
                 ?r = (Inr (Some rt),
                      pf\<lparr>cash := cash pf - c,
                         open_roundtrips := open_roundtrips pf @ [(rt_id rt, rt)],
                         transaction_log := transaction_log pf @ [txn],
                         next_uuid := next_uuid pf + 2\<rparr>) \<and>
                 rt_id rt \<notin> set (dict_keys (open_roundtrips pf)) \<and>
                 rt_ticker rt = ticker \<and> rt_exit_rule rt = xr \<and>
                 rt_transactions rt = [txn] \<and>
                 t_transaction_type txn = ''open'' \<and> t_roundtrip_id txn = rt_id rt \<and>
                 t_ticker txn = ticker \<and> t_date txn = date \<and>
                 t_shares txn = ?sh \<and> t_price txn = price \<and>
                 t_net_amount txn = - c))" if p: "0 < price"
  proof (cases "?sh \<le> 0 \<or> \<not> can_open_position pf")
    case True
    then have "?r = (Inr None, pf)"
      by (auto simp: open_position_def Let_def)
    with True show ?thesis
      by (auto simp: can_open_position_def)
  next
    case False
    then have sh: "0 < ?sh" and cap: "can_open_position pf"
      by auto
    from calculate_entry_cost_pos [OF sh p] obtain c where
      c: "calculate_entry_cost (transaction_cost pf) ?sh price = Inr c"
      by blast
    show ?thesis
    proof (cases "cash pf < c")
      case True
      with sh cap c have "?r = (Inr None, pf)"
        by (simp add: open_position_def Let_def)
      with True c show ?thesis by auto
    next
      case nc: False
      obtain r pf' where e: "?r = (r, pf')"
        by (cases ?r)
      from sh cap c nc e have "r \<noteq> Inr None" "\<forall>x. r \<noteq> Inl x"
        by (auto simp: open_position_def Let_def)
      with open_position_cases [OF e] c obtain rt txn where
        tx: "txn = \<lparr>t_id = next_uuid pf + 1, t_roundtrip_id = next_uuid pf,
                               t_ticker = ticker, t_date = date,
                               t_transaction_type = ''open'', t_shares = ?sh,
                               t_price = price, t_net_amount = - c,
                               t_reason = ''signal''\<rparr>"
        and rt: "rt_id rt = next_uuid pf" "rt_transactions rt = [txn]" "rt_ticker rt = ticker"
                "rt_exit_rule rt = xr" "r = Inr (Some rt)"
        and pf': "pf' = pf\<lparr>cash := cash pf - c,
                   open_roundtrips := dict_set (open_roundtrips pf) (next_uuid pf) rt,
                   transaction_log := transaction_log pf @ [txn],
                   next_uuid := next_uuid pf + 2\<rparr>"
        by auto
      have "?r = (Inr (Some rt),
                      pf\<lparr>cash := cash pf - c,
                         open_roundtrips := open_roundtrips pf @ [(rt_id rt, rt)],
                         transaction_log := transaction_log pf @ [txn],
                         next_uuid := next_uuid pf + 2\<rparr>)"
        using e rt pf' fresh by (simp add: dict_set_fresh)
      moreover have "fst ?r \<noteq> Inr None"
        using e rt by simp
      moreover have "\<not> (?sh \<le> 0 \<or> max_positions pf \<le> int (length (open_roundtrips pf)) \<or>
              (\<exists>c. calculate_entry_cost (transaction_cost pf) ?sh price = Inr c \<and> cash pf < c))"
        using sh cap c nc by (auto simp: can_open_position_def)
      ultimately show ?thesis
        using c rt fresh tx
        by (intro conjI impI iffI; simp)
    qed
  qed
  from pos neg show ?thesis by blast
qed

text \<open>
  The claim as first stated has no third outcome. At price 0, with 10 shares and an empty
  ledger, none of the three conditions of refusal holds, and the call neither returns
  \<open>None\<close> nor opens a position: it raises.
\<close>

theorem open_position_nonpositive_price_counterexample:
  "\<not> round_shares ledger0 10 \<le> 0 \<and> can_open_position ledger0 \<and>
   calculate_entry_cost (transaction_cost ledger0) (round_shares ledger0 10) 0
     = Inl (ValueError Price_must_be_positive) \<and>
   open_position ledger0 ''AAPL'' 1 0 10 None None
     = (Inl (ValueError Price_must_be_positive), ledger0)"
  by (simp add: ledger0_def eval_defs)

lemma open_ledger0: "open_position ledger0 ''AAPL'' 1 100 10 None None = (Inr (Some position1), ledger1)"
  by (simp add: ledger1_def ledger0_def position1_def eval_defs)

theorem open_position_outcome_witness:
  "0 < (100::real) \<and>
   open_position ledger0 ''AAPL'' 1 100 10 None None = (Inr (Some position1), ledger1) \<and>
   cash ledger1 = cash ledger0 - 1000 \<and>
   calculate_entry_cost (transaction_cost ledger0) (round_shares ledger0 1000) 100 = Inr 100000 \<and>
   cash ledger0 < 100000 \<and>
   fst (open_position ledger0 ''AAPL'' 1 100 1000 None None) = Inr None \<and>
   snd (open_position ledger0 ''AAPL'' 1 100 1000 None None) = ledger0 \<and>
   (0::real) \<le> 0 \<and> 0 < round_shares ledger0 10 \<and> can_open_position ledger0 \<and>
   open_position ledger0 ''AAPL'' 1 0 10 None None
     = (Inl (ValueError Price_must_be_positive), ledger0)"
proof -
  have c: "calculate_entry_cost (transaction_cost ledger0) (round_shares ledger0 1000) 100 = Inr 100000"
    "cash ledger0 < 100000"
    by (simp_all add: ledger0_def eval_defs)
  have p: "0 < (100::real)"
    by simp
  from open_position_outcome [OF reachable_ledger0, of 100 "''AAPL''" 1 1000 None None] p c
  have refused: "fst (open_position ledger0 ''AAPL'' 1 100 1000 None None) = Inr None \<and>
    snd (open_position ledger0 ''AAPL'' 1 100 1000 None None) = ledger0"
    by blast
  have q: "(0::real) \<le> 0" "0 < round_shares ledger0 10" "can_open_position ledger0"
    by (simp_all add: ledger0_def eval_defs)
  from open_position_outcome [OF reachable_ledger0, of 0 "''AAPL''" 1 10 None None] q
  have raised: "open_position ledger0 ''AAPL'' 1 0 10 None None
     = (Inl (ValueError Price_must_be_positive), ledger0)"
    by blast
  have "cash ledger1 = cash ledger0 - 1000"
    by (simp add: ledger1_eq ledger0_def Portfolio_init_def)
  with refused raised open_ledger0 c p q show ?thesis
    by simp
qed

section \<open>Exit rules: precedence and peak tracking\<close>

lemma should_exit_rules_none:
  "none_fires rules rt d p st = Some st' \<Longrightarrow>
   should_exit_rules rules rt d p st = ((False, 0, ''''), st')"
proof (induction rules arbitrary: st)
  case Nil
  then show ?case by simp
next
  case (Cons a rules)
  obtain rule portion where a: "a = (rule, portion)"
    by (cases a)
  obtain fires own reason st1 where e: "should_exit rule rt d p st = ((fires, own, reason), st1)"
    by (metis prod.exhaust)
  with Cons.prems a have "\<not> fires" and "none_fires rules rt d p st1 = Some st'"
    by (auto split: if_splits)
  with Cons.IH e a show ?case by simp
qed

lemma should_exit_rules_first:
  "none_fires pre rt d p st = Some st0 \<Longrightarrow>
   should_exit rule rt d p st0 = ((True, own, reason), st') \<Longrightarrow>
   should_exit_rules (pre @ (rule, portion) # post) rt d p st = ((True, portion, reason), st')"
proof (induction pre arbitrary: st)
  case Nil
  then show ?case by simp
next
  case (Cons a pre)
  obtain r q where a: "a = (r, q)"
    by (cases a)
  obtain fires own' reason' st1 where e: "should_exit r rt d p st = ((fires, own', reason'), st1)"
    by (metis prod.exhaust)
  with Cons.prems a have "\<not> fires" and "none_fires pre rt d p st1 = Some st0"
    by (auto split: if_splits)
  with Cons.IH Cons.prems(2) e a show ?case by simp
qed

lemma none_fires_None:
  "none_fires rules rt d p st = None \<Longrightarrow>
   \<exists>pre rule portion post st0 own reason st'.
     rules = pre @ (rule, portion) # post \<and> none_fires pre rt d p st = Some st0 \<and>
     should_exit rule rt d p st0 = ((True, own, reason), st')"
proof (induction rules arbitrary: st)
  case Nil
  then show ?case by simp
next
  case (Cons a rules)
  obtain r q where a: "a = (r, q)"
    by (cases a)
  obtain fires own reason st1 where e: "should_exit r rt d p st = ((fires, own, reason), st1)"
    by (metis prod.exhaust)
  show ?case
  proof (cases fires)
    case True
    with e a have "a # rules = [] @ (r, q) # rules \<and> none_fires [] rt d p st = Some st \<and>
      should_exit r rt d p st = ((True, own, reason), st1)"
      by simp
    then show ?thesis by blast
  next
    case False
    with Cons.prems e a have "none_fires rules rt d p st1 = None"
      by simp
    from Cons.IH [OF this] obtain pre rule portion post st0 own' reason' st' where
      "rules = pre @ (rule, portion) # post" "none_fires pre rt d p st1 = Some st0"
      "should_exit rule rt d p st0 = ((True, own', reason'), st')"
      by blast
    with e a False have "a # rules = (a # pre) @ (rule, portion) # post \<and>
      none_fires (a # pre) rt d p st = Some st0 \<and>
      should_exit rule rt d p st0 = ((True, own', reason'), st')"
      by simp
    then show ?thesis by blast
  qed
qed

lemma position1_facts:
  "average_entry_price position1 = 100" "get_holding_days position1 d = d - 1" "rt_id position1 = 0"
  by (simp_all add: position1_def average_entry_price_def total_shares_def entry_shares_def
        get_holding_days_def)

text \<open>
  Claim C6 (precedence and portion of the composite exit rule). The constructor refuses
  an empty list and accepts any other. \<open>should_exit\<close> asks the sub-rules in the order
  of the list, each on the store its predecessors left: when the rules before a slot do not
  fire and the rule of the slot fires, the answer is that rule's reason with the portion of
  the slot, whatever portion the rule itself gave, and the rules after the slot are not
  asked; when no rule fires the answer is \<open>(False, 0, '''')\<close>; and one of the two is
  always the case. With a stop loss of 8 percent before a time exit of 30 days, a position
  entered at 100 exits at 90 on day 10 for the reason stop_loss, and at 100 on day 35 for
  the reason time_exit.
\<close>

theorem composite_exit_precedence:
  "CompositeExitRule_init [] = Inl (ValueError CompositeExitRule_requires_at_least_one_rule) \<and>
   (rules \<noteq> [] \<longrightarrow> CompositeExitRule_init rules = Inr (CompositeExitRule rules)) \<and>
   (\<forall>pre rule portion post st0 own reason st'.
      rules = pre @ (rule, portion) # post \<and> none_fires pre rt d p st = Some st0 \<and>
      should_exit rule rt d p st0 = ((True, own, reason), st') \<longrightarrow>
      should_exit (CompositeExitRule rules) rt d p st = ((True, portion, reason), st')) \<and>
   (\<forall>st'. none_fires rules rt d p st = Some st' \<longrightarrow>
      should_exit (CompositeExitRule rules) rt d p st = ((False, 0, ''''), st')) \<and>
   (none_fires rules rt d p st = None \<longrightarrow>
      (\<exists>pre rule portion post st0 own reason st'.
         rules = pre @ (rule, portion) # post \<and> none_fires pre rt d p st = Some st0 \<and>
         should_exit rule rt d p st0 = ((True, own, reason), st'))) \<and>
   CompositeExitRule_init [(StopLossExit 0.08, 1), (TimeBasedExit 30, 1)] = Inr stop_then_time \<and>
   average_entry_price position1 = 100 \<and>
   get_holding_days position1 11 = 10 \<and>
   should_exit stop_then_time position1 11 90 st = ((True, 1, ''stop_loss''), st) \<and>
   get_holding_days position1 36 = 35 \<and>
   should_exit stop_then_time position1 36 100 st = ((True, 1, ''time_exit''), st)"
proof -
  have "should_exit stop_then_time position1 11 90 st = ((True, 1, ''stop_loss''), st)"
    by (simp add: stop_then_time_def position1_facts)
  moreover have "should_exit stop_then_time position1 36 100 st = ((True, 1, ''time_exit''), st)"
    by (simp add: stop_then_time_def position1_facts)
  moreover have "CompositeExitRule_init [(StopLossExit 0.08, 1), (TimeBasedExit 30, 1)] = Inr stop_then_time"
    by (simp add: CompositeExitRule_init_def stop_then_time_def)
  ultimately show ?thesis
    using none_fires_None [of rules rt d p st]
    by (simp add: should_exit_rules_none should_exit_rules_first CompositeExitRule_init_def
          position1_facts)
qed

theorem composite_exit_precedence_witness:
  "[(ProfitTargetExit 0.2 0.5, 1), (TimeBasedExit 30, 0.25)]
     = [(ProfitTargetExit 0.2 0.5, 1)] @ (TimeBasedExit 30, 0.25) # [] \<and>
   none_fires [(ProfitTargetExit 0.2 0.5, 1)] position1 36 100 no_peaks = Some no_peaks \<and>
   should_exit (TimeBasedExit 30) position1 36 100 no_peaks = ((True, 1, ''time_exit''), no_peaks) \<and>
   should_exit (CompositeExitRule [(ProfitTargetExit 0.2 0.5, 1), (TimeBasedExit 30, 0.25)])
      position1 36 100 no_peaks = ((True, 0.25, ''time_exit''), no_peaks) \<and>
   none_fires [(ProfitTargetExit 0.2 0.5, 1), (TimeBasedExit 30, 0.25)] position1 11 100 no_peaks
     = Some no_peaks \<and>
   should_exit (CompositeExitRule [(ProfitTargetExit 0.2 0.5, 1), (TimeBasedExit 30, 0.25)])
      position1 11 100 no_peaks = ((False, 0, ''''), no_peaks) \<and>
   CompositeExitRule_init [(ProfitTargetExit 0.2 0.5, 1), (TimeBasedExit 30, 0.25)]
     = Inr (CompositeExitRule [(ProfitTargetExit 0.2 0.5, 1), (TimeBasedExit 30, 0.25)])"
proof -
  let ?rules = "[(ProfitTargetExit 0.2 0.5, 1), (TimeBasedExit 30, 0.25)]"
  have a: "?rules = [(ProfitTargetExit 0.2 0.5, 1)] @ (TimeBasedExit 30, 0.25) # []"
    by simp
  have b: "none_fires [(ProfitTargetExit 0.2 0.5, 1)] position1 36 100 no_peaks = Some no_peaks"
    by (simp add: position1_facts)
  have c: "should_exit (TimeBasedExit 30) position1 36 100 no_peaks = ((True, 1, ''time_exit''), no_peaks)"
    by (simp add: position1_facts)
  have d: "none_fires ?rules position1 11 100 no_peaks = Some no_peaks"
    by (simp add: position1_facts)
  have e: "?rules \<noteq> []"
    by simp
  note t1 = composite_exit_precedence [of ?rules position1 36 100 no_peaks]
  note t2 = composite_exit_precedence [of ?rules position1 11 100 no_peaks]
  from t1 a b c have
    "should_exit (CompositeExitRule ?rules) position1 36 100 no_peaks
       = ((True, 0.25, ''time_exit''), no_peaks)"
    by blast
  moreover from t2 d have
    "should_exit (CompositeExitRule ?rules) position1 11 100 no_peaks = ((False, 0, ''''), no_peaks)"
    by blast
  moreover from t1 e have "CompositeExitRule_init ?rules = Inr (CompositeExitRule ?rules)"
    by blast
  ultimately show ?thesis using a b c d by blast
qed

lemma trailing_stop_eq:
  "should_exit (TrailingStopExit trailing_pct self) rt d price st =
     (let peak = max (case st self (rt_id rt) of None \<Rightarrow> average_entry_price rt | Some pk \<Rightarrow> pk)
                     price
      in ((if 0 < peak \<and> trailing_pct \<le> (peak - price) / peak
           then (True, 1, ''trailing_stop'') else (False, 0, '''')),
          st(self := (st self)(rt_id rt \<mapsto> peak))))"
proof (cases "st self (rt_id rt)")
  case None
  then show ?thesis
    by (auto simp: Let_def max_def not_less)
next
  case (Some pk)
  then have "(st self)(rt_id rt \<mapsto> pk) = st self"
    by (simp add: map_upd_triv)
  with Some show ?thesis
    by (auto simp: Let_def max_def not_less)
qed

text \<open>
  Claim C7 (peak tracking of the trailing stop). A call of \<open>should_exit\<close> sets the
  peak stored for the round trip to the larger of the price and the peak stored before
  (the average entry price when none was stored), whether it fires or not; the stored peak
  never decreases, and the peaks of other round trips are not touched. It fires, with
  portion 1 and reason trailing_stop, exactly when the new peak is positive and the
  drawdown from it is at least the configured fraction. With 10 percent and an entry at
  100, a price of 150 makes the peak 150; from there 135 fires and 137 does not.
\<close>

theorem trailing_stop_peak_tracking:
  "should_exit (TrailingStopExit trailing_pct self) rt d price st =
     (let peak = max (case st self (rt_id rt) of None \<Rightarrow> average_entry_price rt | Some pk \<Rightarrow> pk)
                     price
      in ((if 0 < peak \<and> trailing_pct \<le> (peak - price) / peak
           then (True, 1, ''trailing_stop'') else (False, 0, '''')),
          st(self := (st self)(rt_id rt \<mapsto> peak)))) \<and>
   (\<forall>pk. st self (rt_id rt) = Some pk \<longrightarrow>
      (\<exists>pk'. snd (should_exit (TrailingStopExit trailing_pct self) rt d price st) self (rt_id rt)
               = Some pk' \<and> pk \<le> pk' \<and> price \<le> pk')) \<and>
   (\<forall>k. k \<noteq> rt_id rt \<longrightarrow>
      snd (should_exit (TrailingStopExit trailing_pct self) rt d price st) self k = st self k) \<and>
   average_entry_price position1 = 100 \<and>
   should_exit (TrailingStopExit 0.10 0) position1 2 150 no_peaks
     = ((False, 0, ''''), no_peaks(0 := [rt_id position1 \<mapsto> 150])) \<and>
   should_exit (TrailingStopExit 0.10 0) position1 3 135 (no_peaks(0 := [rt_id position1 \<mapsto> 150]))
     = ((True, 1, ''trailing_stop''), no_peaks(0 := [rt_id position1 \<mapsto> 150])) \<and>
   should_exit (TrailingStopExit 0.10 0) position1 3 137 (no_peaks(0 := [rt_id position1 \<mapsto> 150]))
     = ((False, 0, ''''), no_peaks(0 := [rt_id position1 \<mapsto> 150]))"
proof -
  have a: "should_exit (TrailingStopExit 0.10 0) position1 2 150 no_peaks
     = ((False, 0, ''''), no_peaks(0 := [rt_id position1 \<mapsto> 150]))"
    by (simp add: no_peaks_def position1_facts Let_def)
  have b: "should_exit (TrailingStopExit 0.10 0) position1 3 135 (no_peaks(0 := [rt_id position1 \<mapsto> 150]))
     = ((True, 1, ''trailing_stop''), no_peaks(0 := [rt_id position1 \<mapsto> 150]))"
    by (simp add: no_peaks_def position1_facts Let_def)
  have c: "should_exit (TrailingStopExit 0.10 0) position1 3 137 (no_peaks(0 := [rt_id position1 \<mapsto> 150]))
     = ((False, 0, ''''), no_peaks(0 := [rt_id position1 \<mapsto> 150]))"
    by (simp add: no_peaks_def position1_facts Let_def)
  have g: "should_exit (TrailingStopExit trailing_pct self) rt d price st =
     (let peak = max (case st self (rt_id rt) of None \<Rightarrow> average_entry_price rt | Some pk \<Rightarrow> pk)
                     price
      in ((if 0 < peak \<and> trailing_pct \<le> (peak - price) / peak
           then (True, 1, ''trailing_stop'') else (False, 0, '''')),
          st(self := (st self)(rt_id rt \<mapsto> peak))))"
    by (rule trailing_stop_eq)
  have m: "\<forall>pk. st self (rt_id rt) = Some pk \<longrightarrow>
      (\<exists>pk'. snd (should_exit (TrailingStopExit trailing_pct self) rt d price st) self (rt_id rt)
               = Some pk' \<and> pk \<le> pk' \<and> price \<le> pk')"
    unfolding g by (simp add: Let_def)
  have o: "\<forall>k. k \<noteq> rt_id rt \<longrightarrow>
      snd (should_exit (TrailingStopExit trailing_pct self) rt d price st) self k = st self k"
    unfolding g by (simp add: Let_def)
  from a b c g m o position1_facts(1) show ?thesis
    by blast
qed

theorem trailing_stop_peak_tracking_witness:
  "(no_peaks(0 := [rt_id position1 \<mapsto> 150])) 0 (rt_id position1) = Some 150 \<and>
   snd (should_exit (TrailingStopExit 0.10 0) position1 4 160
          (no_peaks(0 := [rt_id position1 \<mapsto> 150]))) 0 (rt_id position1) = Some 160 \<and>
   (150::real) \<le> 160 \<and> (1::nat) \<noteq> rt_id position1 \<and>
   snd (should_exit (TrailingStopExit 0.10 0) position1 4 160
          (no_peaks(0 := [rt_id position1 \<mapsto> 150]))) 0 1 = None"
proof -
  let ?st = "no_peaks(0 := [rt_id position1 \<mapsto> 150])"
  note t = trailing_stop_peak_tracking [of "0.10" 0 position1 4 160 ?st]
  have s: "?st 0 (rt_id position1) = Some 150"
    by simp
  have n: "(1::nat) \<noteq> rt_id position1"
    by (simp add: position1_facts)
  from t s obtain pk' where
    "snd (should_exit (TrailingStopExit 0.10 0) position1 4 160 ?st) 0 (rt_id position1) = Some pk'"
    "150 \<le> pk'" "160 \<le> pk'"
    by blast
  moreover from t have "snd (should_exit (TrailingStopExit 0.10 0) position1 4 160 ?st) 0 (rt_id position1)
    = Some (max 150 160)"
    by (simp add: Let_def)
  moreover from t n have "snd (should_exit (TrailingStopExit 0.10 0) position1 4 160 ?st) 0 1 = ?st 0 1"
    by blast
  ultimately show ?thesis using s n
    by (simp add: no_peaks_def position1_facts Let_def)
qed

section \<open>Signals and position sizes\<close>

lemma signals_of_rules_eq:
  "signals_of_rules rules ticker d dp pf signals =
     signals @ List.map_filter (\<lambda>rule. should_enter rule ticker d dp pf) rules"
  by (induction rules arbitrary: signals) (auto simp: List.map_filter_simps split: option.splits)

lemma signals_of_universe_eq:
  "signals_of_universe tickers rules d dp pf signals =
     signals @ concat (map (\<lambda>ticker. List.map_filter (\<lambda>rule. should_enter rule ticker d dp pf) rules)
                        tickers)"
  by (induction tickers arbitrary: signals) (simp_all add: signals_of_rules_eq)

lemma py_sort_reverse_mset: "mset (py_sort_reverse key xs) = mset xs"
  by (simp add: py_sort_reverse_def)

lemma py_sort_reverse_sorted:
  "sorted_wrt (\<lambda>a b. key a \<ge> key b) (py_sort_reverse key xs)"
proof -
  have "sorted (map key (sort_key key (rev xs)))"
    by (rule sorted_sort_key)
  then have "sorted_wrt (\<lambda>a b. key a \<le> key b) (sort_key key (rev xs))"
    by (simp add: sorted_map)
  then show ?thesis
    by (simp add: py_sort_reverse_def sorted_wrt_rev)
qed

lemma py_sort_reverse_stable:
  "filter (\<lambda>x. key x = k) (py_sort_reverse key xs) = filter (\<lambda>x. key x = k) xs"
proof -
  have "filter (\<lambda>x. key x = k) (py_sort_reverse key xs)
          = rev (filter (\<lambda>x. key x = k) (sort_key key (rev xs)))"
    by (simp add: py_sort_reverse_def rev_filter)
  also have "\<dots> = rev (filter (\<lambda>x. key x = k) (rev xs))"
    by (simp only: sort_key_stable)
  also have "\<dots> = filter (\<lambda>x. key x = k) xs"
    by (simp add: rev_filter)
  finally show ?thesis .
qed

text \<open>
  Claim C8 (order of the generated signals). \<open>generate_signals\<close> returns the signals
  that the entry rules give for the tickers of the universe, every rule asked for every
  ticker, each signal once; sorted by descending priority; and the signals of one priority
  in the order of their discovery, ticker by ticker and rule by rule within a ticker.
\<close>

theorem generate_signals_order:
  "mset (generate_signals s d dp pf) = mset (discovered s d dp pf) \<and>
   sorted_wrt (\<lambda>a b. s_priority a \<ge> s_priority b) (generate_signals s d dp pf) \<and>
   (\<forall>k. filter (\<lambda>x. s_priority x = k) (generate_signals s d dp pf)
          = filter (\<lambda>x. s_priority x = k) (discovered s d dp pf))"
  by (simp add: generate_signals_def discovered_def signals_of_universe_eq
        py_sort_reverse_mset py_sort_reverse_sorted py_sort_reverse_stable)

lemma calculate_shares_nonpositive_price:
  "price \<le> 0 \<Longrightarrow>
   calculate_shares ps price available_cash portfolio_value pf ticker
     = Inl (ValueError price_must_be_positive)"
  by (cases ps) simp_all

lemma calculate_shares_contract:
  assumes "sizer_ok ps" and "0 < price"
    and "\<forall>p. pf = Some p \<longrightarrow> max_positions p \<noteq> 0"
  shows "\<exists>n. calculate_shares ps price available_cash portfolio_value pf ticker = Inr n \<and> 0 \<le> n"
proof (cases ps)
  case (EqualWeight m)
  with assms(1) have m: "0 < m"
    by (auto simp: sizer_ok_def FixedDollarAmount_init_def PercentPortfolio_init_def
          PercentAvailableCash_init_def EqualWeight_init_def FixedShares_init_def
          RiskParity_init_def split: if_splits)
  have key: "0 \<le> alloc / price" if "0 < alloc" for alloc :: real
    using that assms(2) by simp
  from EqualWeight assms(2,3) m show ?thesis
    by (cases pf) (auto simp: py_truediv_def Let_def not_le key simp del: divide_divide_eq_left)
next
  case (FixedShares n)
  with assms(1) have "0 < n"
    by (auto simp: sizer_ok_def FixedDollarAmount_init_def PercentPortfolio_init_def
          PercentAvailableCash_init_def EqualWeight_init_def FixedShares_init_def
          RiskParity_init_def split: if_splits)
  with FixedShares assms(2) show ?thesis
    by (auto simp: Let_def)
qed (use assms(2) in \<open>auto simp: Let_def not_le intro: divide_nonneg_pos less_imp_le\<close>)

lemma calculate_shares_zero:
  assumes "0 < price"
  shows "shares * price > available_cash \<Longrightarrow>
         calculate_shares (FixedShares shares) price available_cash portfolio_value pf ticker = Inr 0"
    and "min dollar_amount available_cash \<le> 0 \<Longrightarrow>
         calculate_shares (FixedDollarAmount dollar_amount) price available_cash portfolio_value pf ticker
           = Inr 0"
    and "min (portfolio_value * percent) available_cash \<le> 0 \<Longrightarrow>
         calculate_shares (PercentPortfolio percent) price available_cash portfolio_value pf ticker
           = Inr 0"
    and "available_cash * percent \<le> 0 \<Longrightarrow>
         calculate_shares (PercentAvailableCash percent) price available_cash portfolio_value pf ticker
           = Inr 0"
    and "min base available_cash \<le> 0 \<Longrightarrow>
         calculate_shares (RiskParity base vol adj) price available_cash portfolio_value pf ticker
           = Inr 0"
    and "py_truediv available_cash (case pf of Some p \<Rightarrow> max_positions p | None \<Rightarrow> m) = Inr allocation
         \<Longrightarrow> allocation \<le> 0 \<Longrightarrow>
         calculate_shares (EqualWeight m) price available_cash portfolio_value pf ticker = Inr 0"
  using assms by (simp_all add: Let_def)

text \<open>
  Claim C9 (contract of the position sizers). Every sizer raises the invalid-input error
  on a price that is not positive, and for a positive price a sizer built by its
  constructor returns a share count that is not negative, zero where the allocation is not
  positive or a fixed count costs more than the cash: the three lemmas above, which hold
  when the ledger handed to the sizer has a capacity other than zero. \<open>EqualWeight\<close>
  divides the cash by the capacity of the ledger before it looks at the allocation, so for
  a ledger of capacity zero the division raises, at a positive price.
\<close>

theorem equal_weight_zero_capacity_raises:
  "EqualWeight_init 10 = Inr (EqualWeight 10) \<and> (0::real) < 100 \<and>
   max_positions (Portfolio_init 1000 0 \<lparr>commission = 0, slippage_pct = 0.001\<rparr> True) = 0 \<and>
   calculate_shares (EqualWeight 10) 100 1000 1000
     (Some (Portfolio_init 1000 0 \<lparr>commission = 0, slippage_pct = 0.001\<rparr> True)) (Some ''AAPL'')
     = Inl ZeroDivisionError"
  by (simp add: EqualWeight_init_def Portfolio_init_def py_truediv_def)

end
